theory Spec2Isabelle
  imports Complex_Main "HOL-Library.Word" "HOL-Library.Multiset"
begin

section \<open>Cross-cycle CPU sampling state of the GPU process collector\<close>

text \<open>
  The process collector keeps, between scrapes, the last cumulative CPU-seconds seen for
  every process id and the last cumulative system-wide CPU-seconds. Go's \<open>float64\<close> is
  modelled by \<open>real\<close>: finite values with exact arithmetic (no NaN, no infinity, no
  rounding). Go's \<open>uint\<close> is a 64-bit word. Values of Go's \<open>int\<close> and \<open>int64\<close> (the number of
  CPUs, device indices, byte counts) are only compared, formatted and converted to
  \<open>float64\<close>; they are modelled by \<open>int\<close>.
\<close>

type_synonym uint = "64 word"

record cpuSample =
  cpuSeconds :: real

record systemCPUSample =
  totalSeconds :: real
  initialized :: bool

record gpuProcessCollector =
  cpuSamples :: "uint \<rightharpoonup> cpuSample"
  systemSample :: systemCPUSample

text \<open>The zero value \<open>systemCPUSample{}\<close>.\<close>

definition systemCPUSample_zero :: systemCPUSample where
  "systemCPUSample_zero = \<lparr>totalSeconds = 0, initialized = False\<rparr>"

text \<open>\<open>NewGPUProcessCollector\<close>: an empty sample map and the zero system sample.\<close>

definition NewGPUProcessCollector :: gpuProcessCollector where
  "NewGPUProcessCollector = \<lparr>cpuSamples = Map.empty, systemSample = systemCPUSample_zero\<rparr>"

text \<open>
  \<open>processCPUPercent\<close> reads the previous sample of the pid, overwrites it with the
  current reading, and only then decides what to return.
\<close>

definition processCPUPercent ::
  "gpuProcessCollector \<Rightarrow> uint \<Rightarrow> real \<Rightarrow> real \<Rightarrow> bool \<Rightarrow> int \<Rightarrow> real \<times> gpuProcessCollector" where
  "processCPUPercent c pid procSeconds systemDelta hasSystemDelta numCPU =
     (let prev = cpuSamples c pid;
          c' = c\<lparr>cpuSamples := (cpuSamples c)(pid \<mapsto> \<lparr>cpuSeconds = procSeconds\<rparr>)\<rparr>
      in case prev of
           None \<Rightarrow> (0, c')
         | Some p \<Rightarrow>
             if \<not> hasSystemDelta \<or> systemDelta \<le> 0 then (0, c')
             else if procSeconds \<le> cpuSeconds p then (0, c')
             else (((procSeconds - cpuSeconds p) / systemDelta) * real_of_int numCPU * 100, c'))"

text \<open>
  \<open>pruneCPUSamples\<close>: nothing to do on an empty map; otherwise every key that is not in
  the active list is deleted.
\<close>

definition pruneCPUSamples :: "gpuProcessCollector \<Rightarrow> uint list \<Rightarrow> gpuProcessCollector" where
  "pruneCPUSamples c active =
     (if cpuSamples c = Map.empty then c
      else c\<lparr>cpuSamples := (\<lambda>pid. if pid \<in> set active then cpuSamples c pid else None)\<rparr>)"

text \<open>\<open>resetCPUSamples\<close> deletes every key and zeroes the system sample.\<close>

definition resetCPUSamples :: "gpuProcessCollector \<Rightarrow> gpuProcessCollector" where
  "resetCPUSamples c = c\<lparr>cpuSamples := Map.empty, systemSample := systemCPUSample_zero\<rparr>"

text \<open>
  \<open>updateSystemSample\<close> returns the pair (delta, valid) and the collector with the new
  system sample.
\<close>

definition updateSystemSample ::
  "gpuProcessCollector \<Rightarrow> real \<Rightarrow> (real \<times> bool) \<times> gpuProcessCollector" where
  "updateSystemSample c cur =
     (if \<not> initialized (systemSample c)
      then ((0, False), c\<lparr>systemSample := \<lparr>totalSeconds = cur, initialized = True\<rparr>\<rparr>)
      else
        let delta = (if cur \<ge> totalSeconds (systemSample c)
                     then cur - totalSeconds (systemSample c) else 0);
            c' = c\<lparr>systemSample := (systemSample c)\<lparr>totalSeconds := cur\<rparr>\<rparr>
        in if delta \<le> 0 then ((0, False), c') else ((delta, True), c'))"


section \<open>Strings: UTF-8, trimming, formatting\<close>

text \<open>
  A Go string is a sequence of bytes; it is modelled by \<open>string\<close>, whose characters are
  bytes. \<open>len(s)\<close> is \<open>length s\<close>. The conversion \<open>[]rune(s)\<close> decodes UTF-8 the way the
  Go runtime does: a byte that does not start a well-formed sequence decodes to
  \<open>RuneError\<close> (U+FFFD) and consumes one byte. Code points are natural numbers.
\<close>

definition RuneError :: nat where
  "RuneError = 0xFFFD"

definition is_cont :: "nat \<Rightarrow> bool" where
  "is_cont b = (0x80 \<le> b \<and> b \<le> 0xBF)"

text \<open>The range accepted for the second byte, by first byte (Go's \<open>acceptRanges\<close>).\<close>

definition second_ok :: "nat \<Rightarrow> nat \<Rightarrow> bool" where
  "second_ok b0 b1 =
     (if b0 = 0xE0 then 0xA0 \<le> b1 \<and> b1 \<le> 0xBF
      else if b0 = 0xED then 0x80 \<le> b1 \<and> b1 \<le> 0x9F
      else if b0 = 0xF0 then 0x90 \<le> b1 \<and> b1 \<le> 0xBF
      else if b0 = 0xF4 then 0x80 \<le> b1 \<and> b1 \<le> 0x8F
      else is_cont b1)"

text \<open>\<open>utf8.DecodeRune\<close>: the code point at the head of the bytes and its width.\<close>

definition DecodeRune :: "nat list \<Rightarrow> nat \<times> nat" where
  "DecodeRune bytes =
     (case bytes of [] \<Rightarrow> (RuneError, 0) | b0 # bs \<Rightarrow>
     (if b0 < 0x80 then (b0, 1)
      else if 0xC2 \<le> b0 \<and> b0 \<le> 0xDF then
        (case bs of
           b1 # _ \<Rightarrow>
             if is_cont b1 then ((b0 - 0xC0) * 64 + (b1 - 0x80), 2) else (RuneError, 1)
         | _ \<Rightarrow> (RuneError, 1))
      else if 0xE0 \<le> b0 \<and> b0 \<le> 0xEF then
        (case bs of
           b1 # b2 # _ \<Rightarrow>
             if second_ok b0 b1 \<and> is_cont b2
             then ((b0 - 0xE0) * 4096 + (b1 - 0x80) * 64 + (b2 - 0x80), 3)
             else (RuneError, 1)
         | _ \<Rightarrow> (RuneError, 1))
      else if 0xF0 \<le> b0 \<and> b0 \<le> 0xF4 then
        (case bs of
           b1 # b2 # b3 # _ \<Rightarrow>
             if second_ok b0 b1 \<and> is_cont b2 \<and> is_cont b3
             then ((b0 - 0xF0) * 262144 + (b1 - 0x80) * 4096 + (b2 - 0x80) * 64 + (b3 - 0x80), 4)
             else (RuneError, 1)
         | _ \<Rightarrow> (RuneError, 1))
      else (RuneError, 1)))"

text \<open>
  The bytes cut into the pieces a left-to-right decoding reads: each piece is the
  decoded code point with the bytes it came from.
\<close>

fun segments :: "nat list \<Rightarrow> (nat \<times> nat list) list" where
  "segments [] = []"
| "segments (b # bs) =
     (fst (DecodeRune (b # bs)), b # take (snd (DecodeRune (b # bs)) - 1) bs)
       # segments (drop (snd (DecodeRune (b # bs)) - 1) bs)"

definition bytes_of :: "string \<Rightarrow> nat list" where
  "bytes_of s = map of_char s"

definition string_of :: "nat list \<Rightarrow> string" where
  "string_of bs = map char_of bs"

text \<open>\<open>[]rune(s)\<close>.\<close>

definition runes :: "string \<Rightarrow> nat list" where
  "runes s = map fst (segments (bytes_of s))"

text \<open>A piece is an encoding error when it is \<open>RuneError\<close> of width one.\<close>

definition bad_segment :: "nat \<times> nat list \<Rightarrow> bool" where
  "bad_segment sg = (fst sg = RuneError \<and> length (snd sg) = 1)"

text \<open>\<open>utf8.ValidString\<close>.\<close>

definition ValidString :: "string \<Rightarrow> bool" where
  "ValidString s = (filter bad_segment (segments (bytes_of s)) = [])"

text \<open>The Unicode scalar values: the code points that are not surrogates.\<close>

definition scalar :: "nat \<Rightarrow> bool" where
  "scalar r = (r < 0xD800 \<or> (0xE000 \<le> r \<and> r \<le> 0x10FFFF))"

text \<open>
  \<open>utf8.EncodeRune\<close>; surrogates and values above U+10FFFF are written as U+FFFD.
\<close>

definition EncodeRune :: "nat \<Rightarrow> nat list" where
  "EncodeRune r =
     (if r \<le> 0x7F then [r]
      else if r \<le> 0x7FF then [0xC0 + r div 64, 0x80 + r mod 64]
      else if 0x10FFFF < r \<or> (0xD800 \<le> r \<and> r \<le> 0xDFFF) then [0xEF, 0xBF, 0xBD]
      else if r \<le> 0xFFFF
        then [0xE0 + r div 4096, 0x80 + (r div 64) mod 64, 0x80 + r mod 64]
      else [0xF0 + r div 262144, 0x80 + (r div 4096) mod 64,
            0x80 + (r div 64) mod 64, 0x80 + r mod 64])"

text \<open>\<open>string(rs)\<close> for a rune slice \<open>rs\<close>.\<close>

definition string_of_runes :: "nat list \<Rightarrow> string" where
  "string_of_runes rs = string_of (concat (map EncodeRune rs))"

text \<open>\<open>unicode.IsSpace\<close>.\<close>

definition IsSpace :: "nat \<Rightarrow> bool" where
  "IsSpace r =
     ((0x09 \<le> r \<and> r \<le> 0x0D) \<or> r = 0x20 \<or> r = 0x85 \<or> r = 0xA0 \<or> r = 0x1680
      \<or> (0x2000 \<le> r \<and> r \<le> 0x200A) \<or> r = 0x2028 \<or> r = 0x2029 \<or> r = 0x202F
      \<or> r = 0x205F \<or> r = 0x3000)"

text \<open>
  \<open>strings.TrimSpace\<close>: leading and trailing white-space code points are removed; the
  bytes in between are kept as they are, well-formed or not.
\<close>

definition TrimSpace :: "string \<Rightarrow> string" where
  "TrimSpace s =
     string_of (concat (map snd
       (rev (dropWhile (\<lambda>sg. IsSpace (fst sg))
         (rev (dropWhile (\<lambda>sg. IsSpace (fst sg)) (segments (bytes_of s))))))))"

text \<open>\<open>strings.Join\<close>.\<close>

fun Join :: "string list \<Rightarrow> string \<Rightarrow> string" where
  "Join [] sep = []"
| "Join [a] sep = a"
| "Join (a # b # rest) sep = a @ sep @ Join (b # rest) sep"

text \<open>\<open>strconv.FormatUint(n, 10)\<close> and \<open>strconv.FormatInt(i, 10)\<close>.\<close>

definition digit :: "nat \<Rightarrow> char" where
  "digit n = ''0123456789'' ! n"

fun FormatUint :: "nat \<Rightarrow> string" where
  "FormatUint n =
     (if n < 10 then [digit n] else FormatUint (n div 10) @ [digit (n mod 10)])"

definition FormatInt :: "int \<Rightarrow> string" where
  "FormatInt i = (if i < 0 then CHR ''-'' # FormatUint (nat (- i)) else FormatUint (nat i))"

text \<open>\<open>firstNonEmpty\<close>: the first value that is not blank, trimmed.\<close>

fun firstNonEmpty :: "string list \<Rightarrow> string" where
  "firstNonEmpty [] = []"
| "firstNonEmpty (v # vs) = (if TrimSpace v \<noteq> [] then TrimSpace v else firstNonEmpty vs)"

definition unknownProcessLabel :: string where
  "unknownProcessLabel = ''unknown''"

definition maxCommandLabelLength :: nat where
  "maxCommandLabelLength = 200"

text \<open>
  The block of \<open>collectProcessInfo\<close> that bounds the command label: it runs only when the
  label has more than \<open>limit\<close> bytes; then it keeps \<open>limit\<close> code points if there are more
  than that, and otherwise slices the first \<open>limit\<close> bytes.
\<close>

definition limitCommand :: "string \<Rightarrow> string" where
  "limitCommand command =
     (let limit = maxCommandLabelLength in
      if length command > limit then
        (if length (runes command) > limit
         then string_of_runes (take limit (runes command))
         else take limit command)
      else command)"


section \<open>Errors, log records and metrics\<close>

text \<open>
  Go errors as values. \<open>ErrNoData\<close> and \<open>errGPUProcessInfoUnavailable\<close> are the two
  sentinels of the package; \<open>ErrorString\<close> is an error that wraps nothing (\<open>errors.New\<close>,
  \<open>fmt.Errorf\<close> without \<open>%w\<close>, an error of a library); \<open>Wrap\<close> is \<open>fmt.Errorf\<close> with \<open>%w\<close>;
  \<open>DcgmError\<close> is a \<open>*dcgm.Error\<close> with its code.
\<close>

datatype dcgm_code =
    DCGM_ST_NO_DATA | DCGM_ST_NOT_WATCHED | DCGM_ST_BADPARAM | DCGM_ST_NO_PERMISSION
  | DCGM_ST_OTHER int

datatype error =
    ErrNoData
  | errGPUProcessInfoUnavailable
  | ErrorString string
  | Wrap string error
  | DcgmError dcgm_code

text \<open>\<open>errors.Is\<close> follows the chain of wrapped errors.\<close>

fun errors_Is :: "error \<Rightarrow> error \<Rightarrow> bool" where
  "errors_Is (Wrap msg e) target = (Wrap msg e = target \<or> errors_Is e target)"
| "errors_Is e target = (e = target)"

text \<open>\<open>errors.As\<close> for a \<open>*dcgm.Error\<close> target.\<close>

fun errors_As_dcgm :: "error \<Rightarrow> dcgm_code option" where
  "errors_As_dcgm (DcgmError code) = Some code"
| "errors_As_dcgm (Wrap msg e) = errors_As_dcgm e"
| "errors_As_dcgm e = None"

text \<open>\<open>IsNoDataError\<close> compares with the sentinel itself; it does not unwrap.\<close>

definition IsNoDataError :: "error \<Rightarrow> bool" where
  "IsNoDataError err = (err = ErrNoData)"

definition shouldIgnoreProcessError :: "error \<Rightarrow> bool" where
  "shouldIgnoreProcessError err =
     (case errors_As_dcgm err of
        None \<Rightarrow> False
      | Some code \<Rightarrow>
          (case code of
             DCGM_ST_NO_DATA \<Rightarrow> True
           | DCGM_ST_NOT_WATCHED \<Rightarrow> True
           | DCGM_ST_BADPARAM \<Rightarrow> True
           | DCGM_ST_NO_PERMISSION \<Rightarrow> True
           | DCGM_ST_OTHER n \<Rightarrow> False))"

datatype level = Debug | Info | Warn | Error

record Desc =
  fqName :: string
  variableLabels :: "string list"

record Metric =
  metricDesc :: Desc
  gaugeValue :: real
  labelValues :: "string list"

text \<open>
  What a call does besides returning: the metrics it sends on the channel and the
  records it logs, in order.
\<close>

datatype event = Sent Metric | Logged level string

fun metrics_of :: "event list \<Rightarrow> Metric list" where
  "metrics_of [] = []"
| "metrics_of (Sent m # es) = m # metrics_of es"
| "metrics_of (Logged l msg # es) = metrics_of es"

fun logs_of :: "event list \<Rightarrow> (level \<times> string) list" where
  "logs_of [] = []"
| "logs_of (Sent m # es) = logs_of es"
| "logs_of (Logged l msg # es) = (l, msg) # logs_of es"

text \<open>\<open>prometheus.BuildFQName\<close>.\<close>

definition BuildFQName :: "string \<Rightarrow> string \<Rightarrow> string \<Rightarrow> string" where
  "BuildFQName ns subsystem name =
     (if name = [] then []
      else if ns \<noteq> [] \<and> subsystem \<noteq> [] then ns @ ''_'' @ subsystem @ ''_'' @ name
      else if ns \<noteq> [] then ns @ ''_'' @ name
      else if subsystem \<noteq> [] then subsystem @ ''_'' @ name
      else name)"

text \<open>
  \<open>prometheus.MustNewConstMetric\<close> panics (\<open>None\<close>) when the number of label values is
  not the number of variable labels of the descriptor, or when a label value is not
  valid UTF-8.
\<close>

definition MustNewConstMetric :: "Desc \<Rightarrow> real \<Rightarrow> string list \<Rightarrow> Metric option" where
  "MustNewConstMetric d v ls =
     (if length ls = length (variableLabels d) \<and> filter (\<lambda>l. \<not> ValidString l) ls = []
      then Some \<lparr>metricDesc = d, gaugeValue = v, labelValues = ls\<rparr>
      else None)"

definition namespace :: string where
  "namespace = ''gpu''"

definition scrapeDurationDesc :: Desc where
  "scrapeDurationDesc =
     \<lparr>fqName = BuildFQName namespace ''scrape'' ''controller_duration_seconds'',
      variableLabels = [''collector'']\<rparr>"

definition scrapeSuccessDesc :: Desc where
  "scrapeSuccessDesc =
     \<lparr>fqName = BuildFQName namespace ''scrape'' ''controller_success'',
      variableLabels = [''collector'']\<rparr>"

section \<open>The scrape orchestrator\<close>

text \<open>
  A call of \<open>Update\<close> either returns (with an error or \<open>nil\<close>) or panics. In \<open>Collect\<close>
  a collector is represented by what its \<open>Update\<close> does in the scrape at hand: the
  events it produces and how it ends.
\<close>

datatype outcome = Returned "error option" | Panicked

type_synonym Collector = "event list \<times> outcome"

text \<open>
  \<open>execute\<close> runs \<open>Update\<close>, logs how it ended, and sends the two meta-metrics;
  \<open>duration\<close> is \<open>time.Since(begin).Seconds()\<close>. The result is the sequence of events
  of the goroutine, or \<open>None\<close> when it panics.
\<close>

definition execute :: "string \<Rightarrow> Collector \<Rightarrow> real \<Rightarrow> event list option" where
  "execute name c duration =
     (case snd c of
        Panicked \<Rightarrow> None
      | Returned err \<Rightarrow>
          (let lg = (case err of
                       Some e \<Rightarrow>
                         if IsNoDataError e then Logged Debug ''collector returned no data''
                         else Logged Error ''collector failed''
                     | None \<Rightarrow> Logged Debug ''collector succeeded'');
               success = (case err of Some e \<Rightarrow> 0 | None \<Rightarrow> 1)
           in case MustNewConstMetric scrapeDurationDesc duration [name] of
                None \<Rightarrow> None
              | Some md \<Rightarrow>
                  (case MustNewConstMetric scrapeSuccessDesc success [name] of
                     None \<Rightarrow> None
                   | Some ms \<Rightarrow> Some (fst c @ [lg, Sent md, Sent ms]))))"

text \<open>
  \<open>Collect\<close>, the method of \<open>NvidiaGPUCollector\<close>, starts one goroutine per entry of the
  collector map and waits for all of them. The goroutines run concurrently, so what
  arrives on the channel is some interleaving of their event sequences: in each step one
  goroutine that still has events to produce produces its next one.
\<close>

inductive interleave :: "'a list list \<Rightarrow> 'a list \<Rightarrow> bool" where
  finished: "concat xss = [] \<Longrightarrow> interleave xss []"
| step: "i < length xss \<Longrightarrow> xss ! i = x # xs \<Longrightarrow> interleave (xss[i := xs]) ys
         \<Longrightarrow> interleave xss (x # ys)"

text \<open>
  The map \<open>Collectors\<close> is a list of entries; \<open>elapsed\<close> gives the duration measured
  for each collector name. \<open>NvidiaGPUCollector_Collect elapsed cs ch\<close> holds when \<open>ch\<close> is
  a sequence of events that a call of \<open>Collect\<close> may produce before it returns; a panic
  in a goroutine ends the program, and then there is no such sequence.
\<close>

definition goroutines :: "(string \<Rightarrow> real) \<Rightarrow> (string \<times> Collector) list \<Rightarrow> event list option list" where
  "goroutines elapsed cs = map (\<lambda>nc. execute (fst nc) (snd nc) (elapsed (fst nc))) cs"

definition NvidiaGPUCollector_Collect :: "(string \<Rightarrow> real) \<Rightarrow> (string \<times> Collector) list \<Rightarrow> event list \<Rightarrow> bool" where
  "NvidiaGPUCollector_Collect elapsed cs ch =
     (filter (\<lambda>r. r = None) (goroutines elapsed cs) = []
      \<and> interleave (map the (goroutines elapsed cs)) ch)"


section \<open>The environment of one scrape\<close>

text \<open>
  The NVML and DCGM bindings, the host process reader and the operating system are
  outside the repository; a \<open>world\<close> records what each of their calls answers during
  one cycle. A call that fails answers \<open>Inl\<close> of its error.
\<close>

datatype nvml_Return =
    SUCCESS | ERROR_UNINITIALIZED | ERROR_NOT_SUPPORTED | ERROR_NO_PERMISSION
  | ERROR_NOT_FOUND | ERROR_LIBRARY_NOT_FOUND | ERROR_DRIVER_NOT_LOADED | ERROR_UNKNOWN
  | ERROR_OTHER nat

record nvml_ProcessInfo =
  Pid :: "32 word"
  UsedGpuMemory :: "64 word"

record nvml_Device =
  GetComputeRunningProcesses :: "nvml_ProcessInfo list \<times> nvml_Return"
  GetGraphicsRunningProcesses :: "nvml_ProcessInfo list \<times> nvml_Return"

record cpu_TimesStat =
  User :: real
  System :: real
  Nice :: real
  Irq :: real
  Softirq :: real
  Steal :: real
  Idle :: real
  Iowait :: real
  Guest :: real
  GuestNice :: real

text \<open>The answers of a \<open>*process.Process\<close> handle.\<close>

record Process =
  proc_Name :: "error + string"
  proc_Uids :: "error + int list"
  proc_Cmdline :: "error + string"
  proc_CmdlineSlice :: "error + string list"
  proc_MemoryPercent :: "error + real"
  proc_Times :: "error + cpu_TimesStat"

text \<open>A \<open>dcgm.ProcessInfo\<close>, with the fields the collector reads.\<close>

record dcgm_ProcessInfo =
  info_GPU :: uint
  info_PID :: uint
  info_Name :: string
  Memory_GlobalUsed :: int

record world =
  os_Hostname :: "error + string"
  os_Getenv :: "string \<Rightarrow> string"
  nvml_Init :: nvml_Return
  nvml_Shutdown :: nvml_Return
  nvml_ErrorString :: "nvml_Return \<Rightarrow> string"
  nvml_DeviceGetCount :: "int \<times> nvml_Return"
  nvml_DeviceGetHandleByIndex :: "int \<Rightarrow> nvml_Device \<times> nvml_Return"
  cpu_Times :: "error + cpu_TimesStat list"
  runtime_NumCPU :: int
  dcgm_Init :: "error option"
  dcgm_WatchPidFields :: "error option"
  dcgm_DestroyGroup :: "error option"
  dcgm_GetProcessInfo :: "uint \<Rightarrow> error + dcgm_ProcessInfo list"
  dcgm_IsInt64Blank :: "int \<Rightarrow> bool"
  process_NewProcess :: "32 word \<Rightarrow> error + Process"

text \<open>
  \<open>hostNameOrDefault\<close>: the hostname is looked up first, and a failure of that lookup
  ends the function; the \<open>NODE_NAME\<close> variable is read only afterwards.
\<close>

definition hostNameOrDefault :: "bool \<Rightarrow> world \<Rightarrow> event list \<times> string" where
  "hostNameOrDefault has_logger w =
     (case os_Hostname w of
        Inl err \<Rightarrow>
          ((if has_logger then [Logged Warn ''failed to determine hostname''] else []),
           ''unknown'')
      | Inr hostname \<Rightarrow>
          (let nodeName = os_Getenv w ''NODE_NAME'' in
           if nodeName \<noteq> [] then ([], nodeName) else ([], hostname)))"

section \<open>Listing the GPU processes\<close>

definition wrapNVMLAvailabilityError :: "world \<Rightarrow> string \<Rightarrow> nvml_Return \<Rightarrow> error" where
  "wrapNVMLAvailabilityError w op ret =
     (if ret = ERROR_UNINITIALIZED \<or> ret = ERROR_LIBRARY_NOT_FOUND
         \<or> ret = ERROR_DRIVER_NOT_LOADED \<or> ret = ERROR_NOT_SUPPORTED
         \<or> ret = ERROR_NO_PERMISSION \<or> ret = ERROR_UNKNOWN
      then Wrap (op @ '': gpu process list unavailable ('' @ nvml_ErrorString w ret @ '')'')
             errGPUProcessInfoUnavailable
      else ErrorString (op @ '': '' @ nvml_ErrorString w ret))"

text \<open>
  \<open>addNVMLProcessInfo\<close> adds the non-zero pids of one process list to the set; the
  result is the events, the error and the set.
\<close>

definition addNVMLProcessInfo ::
  "world \<Rightarrow> uint set \<Rightarrow> nvml_ProcessInfo list \<times> nvml_Return \<Rightarrow> string \<Rightarrow> int
     \<Rightarrow> event list \<times> error option \<times> uint set" where
  "addNVMLProcessInfo w pidSet getter typ gpuIndex =
     (let processes = fst getter; ret = snd getter in
      if ret = SUCCESS
        then ([], None, pidSet \<union> set (map (\<lambda>info. ucast (Pid info)) (filter (\<lambda>info. Pid info \<noteq> 0) processes)))
      else if ret = ERROR_NOT_SUPPORTED \<or> ret = ERROR_NO_PERMISSION \<or> ret = ERROR_NOT_FOUND
        then ([Logged Debug ''nvml process info unavailable''], None, pidSet)
      else ([], Some (ErrorString (''nvml '' @ typ @ '' running processes (gpu='' @ FormatInt gpuIndex
                                     @ ''): '' @ nvml_ErrorString w ret)), pidSet))"

text \<open>The loop of \<open>nvmlProcessPIDs\<close> over the device indices.\<close>

fun nvmlDevices :: "world \<Rightarrow> int list \<Rightarrow> uint set \<Rightarrow> event list \<times> (error + uint set)" where
  "nvmlDevices w [] pidSet = ([], Inr pidSet)"
| "nvmlDevices w (i # rest) pidSet =
     (let device = fst (nvml_DeviceGetHandleByIndex w i);
          ret = snd (nvml_DeviceGetHandleByIndex w i) in
      if ret \<noteq> SUCCESS
        then ([], Inl (ErrorString (''nvml device handle (index='' @ FormatInt i @ ''): ''
                                      @ nvml_ErrorString w ret)))
      else
        (case addNVMLProcessInfo w pidSet (GetComputeRunningProcesses device) ''compute'' i of
           (l1, Some err, ps1) \<Rightarrow> (l1, Inl err)
         | (l1, None, ps1) \<Rightarrow>
             (case addNVMLProcessInfo w ps1 (GetGraphicsRunningProcesses device) ''graphics'' i of
                (l2, Some err, ps2) \<Rightarrow> (l1 @ l2, Inl err)
              | (l2, None, ps2) \<Rightarrow>
                  (case nvmlDevices w rest ps2 of (l3, r) \<Rightarrow> (l1 @ l2 @ l3, r)))))"

text \<open>
  \<open>nvmlProcessPIDs\<close>: the sorted list of the distinct pids of all devices. The deferred
  shutdown runs on every return after a successful \<open>nvml.Init\<close>.
\<close>

definition nvmlProcessPIDs :: "world \<Rightarrow> event list \<times> (error + uint list)" where
  "nvmlProcessPIDs w =
     (if nvml_Init w \<noteq> SUCCESS
        then ([], Inl (wrapNVMLAvailabilityError w ''nvml init'' (nvml_Init w)))
      else
        (let shutdown = (if nvml_Shutdown w \<noteq> SUCCESS
                         then [Logged Debug ''failed to shutdown nvml''] else []);
             count = fst (nvml_DeviceGetCount w);
             ret = snd (nvml_DeviceGetCount w) in
         if ret \<noteq> SUCCESS
           then (shutdown, Inl (wrapNVMLAvailabilityError w ''nvml device count'' ret))
         else
           (case nvmlDevices w [0..count - 1] {} of
              (lg, Inl err) \<Rightarrow> (lg @ shutdown, Inl err)
            | (lg, Inr pidSet) \<Rightarrow> (lg @ shutdown, Inr (sorted_list_of_set pidSet)))))"

section \<open>Host process information\<close>

record processMetadata =
  meta_name :: string
  meta_uid :: string
  meta_command :: string

text \<open>
  \<open>collectProcessInfo\<close> returns the metadata, the memory percentage and the cumulative
  CPU-seconds (user plus system) of a pid, or the error of the first call that makes it
  give up. A name that cannot be read is set to the empty string; \<open>proc.Cmdline\<close> is
  taken to answer the empty string together with its error, as the library does.
\<close>

definition collectProcessInfo ::
  "world \<Rightarrow> uint \<Rightarrow> string \<Rightarrow> error + (processMetadata \<times> real \<times> real)" where
  "collectProcessInfo w pid fallbackName =
     (case process_NewProcess w (ucast pid) of
        Inl err \<Rightarrow> Inl err
      | Inr proc \<Rightarrow>
          (let name = (case proc_Name proc of Inl err \<Rightarrow> [] | Inr n \<Rightarrow> n);
               uid = (case proc_Uids proc of
                        Inl err \<Rightarrow> unknownProcessLabel
                      | Inr uids \<Rightarrow>
                          (case uids of [] \<Rightarrow> unknownProcessLabel | u # us \<Rightarrow> FormatInt u));
               cmdline0 = (case proc_Cmdline proc of Inl err \<Rightarrow> [] | Inr cl \<Rightarrow> cl);
               cmdline =
                 (if isl (proc_Cmdline proc) \<or> TrimSpace cmdline0 = []
                  then (case proc_CmdlineSlice proc of
                          Inl err \<Rightarrow> cmdline0
                        | Inr args \<Rightarrow> if args \<noteq> [] then Join args '' '' else cmdline0)
                  else cmdline0)
           in case proc_MemoryPercent proc of
                Inl err \<Rightarrow> Inl err
              | Inr memPercent \<Rightarrow>
                  (case proc_Times proc of
                     Inl err \<Rightarrow> Inl err
                   | Inr tms \<Rightarrow>
                       Inr (\<lparr>meta_name = firstNonEmpty [name, fallbackName, unknownProcessLabel],
                             meta_uid = firstNonEmpty [uid, unknownProcessLabel],
                             meta_command = limitCommand
                               (firstNonEmpty [cmdline, name, fallbackName, unknownProcessLabel])\<rparr>,
                            memPercent, User tms + System tms))))"

definition sanitizeBytes :: "world \<Rightarrow> int \<Rightarrow> real" where
  "sanitizeBytes w v = (if v \<le> 0 \<or> dcgm_IsInt64Blank w v then 0 else real_of_int v)"

definition readTotalCPUSeconds :: "world \<Rightarrow> error + real" where
  "readTotalCPUSeconds w =
     (case cpu_Times w of
        Inl err \<Rightarrow> Inl err
      | Inr timesStats \<Rightarrow>
          (case timesStats of
             [] \<Rightarrow> Inl (ErrorString ''cpu times unavailable'')
           | ts # rest \<Rightarrow>
               Inr (User ts + System ts + Nice ts + Irq ts + Softirq ts
                    + Steal ts + Idle ts + Iowait ts + Guest ts + GuestNice ts)))"


section \<open>One cycle of the GPU process collector\<close>

definition GPUProcessSubsystem :: string where
  "GPUProcessSubsystem = ''process''"

definition processLabels :: "string list" where
  "processLabels = [''hostname'', ''gpu_id'', ''pid'', ''process_name'', ''uid'', ''command'']"

text \<open>
  The three descriptors are fields of the collector that are set by the constructor
  and never written again.
\<close>

definition processGPUMem :: Desc where
  "processGPUMem = \<lparr>fqName = BuildFQName namespace GPUProcessSubsystem ''gpu_memory'',
                     variableLabels = processLabels\<rparr>"

definition processCPU :: Desc where
  "processCPU = \<lparr>fqName = BuildFQName namespace GPUProcessSubsystem ''cpu'',
                  variableLabels = processLabels\<rparr>"

definition processMem :: Desc where
  "processMem = \<lparr>fqName = BuildFQName namespace GPUProcessSubsystem ''memory'',
                  variableLabels = processLabels\<rparr>"

text \<open>
  A step that sends metrics yields its events and whether it completed (\<open>False\<close>: it
  panicked); \<open>andThen\<close> runs a second step only after a first one that completed.
\<close>

definition send :: "Metric option \<Rightarrow> event list \<times> bool" where
  "send m = (case m of None \<Rightarrow> ([], False) | Some x \<Rightarrow> ([Sent x], True))"

definition andThen :: "event list \<times> bool \<Rightarrow> event list \<times> bool \<Rightarrow> event list \<times> bool" where
  "andThen a b = (if snd a then (fst a @ fst b, snd b) else a)"

text \<open>The body of the inner loop of \<open>Update\<close>: the three series of one device entry.\<close>

definition emitInfo ::
  "world \<Rightarrow> string \<Rightarrow> processMetadata \<Rightarrow> real \<Rightarrow> real \<Rightarrow> dcgm_ProcessInfo \<Rightarrow> event list \<times> bool" where
  "emitInfo w hostname meta cpuPercent memPercent info =
     (let labels = [hostname, FormatUint (unat (info_GPU info)), FormatUint (unat (info_PID info)),
                    meta_name meta, meta_uid meta, meta_command meta]
      in andThen (send (MustNewConstMetric processGPUMem (sanitizeBytes w (Memory_GlobalUsed info)) labels))
          (andThen (send (MustNewConstMetric processCPU cpuPercent labels))
                   (send (MustNewConstMetric processMem memPercent labels))))"

fun emitInfos ::
  "world \<Rightarrow> string \<Rightarrow> processMetadata \<Rightarrow> real \<Rightarrow> real \<Rightarrow> dcgm_ProcessInfo list \<Rightarrow> event list \<times> bool" where
  "emitInfos w hostname meta cpuPercent memPercent [] = ([], True)"
| "emitInfos w hostname meta cpuPercent memPercent (info # infos) =
     andThen (emitInfo w hostname meta cpuPercent memPercent info)
             (emitInfos w hostname meta cpuPercent memPercent infos)"

text \<open>
  The body of the loop of \<open>Update\<close> over the pids. A pid whose DCGM record or host
  information cannot be read is skipped before \<open>processCPUPercent\<close> is reached.
\<close>

definition updatePid ::
  "world \<Rightarrow> string \<Rightarrow> real \<Rightarrow> bool \<Rightarrow> int \<Rightarrow> gpuProcessCollector \<Rightarrow> uint
     \<Rightarrow> event list \<times> bool \<times> gpuProcessCollector" where
  "updatePid w hostname systemDelta hasSystemDelta numCPU c pid =
     (case dcgm_GetProcessInfo w pid of
        Inl err \<Rightarrow>
          ((if shouldIgnoreProcessError err then []
            else [Logged Debug ''failed to get process info'']), True, c)
      | Inr infos \<Rightarrow>
          (case infos of
             [] \<Rightarrow> ([], True, c)
           | info0 # rest \<Rightarrow>
               (case collectProcessInfo w pid (info_Name info0) of
                  Inl err \<Rightarrow> ([Logged Debug ''failed to collect host process info''], True, c)
                | Inr (meta, memPercent, procCPUSeconds) \<Rightarrow>
                    (let r = processCPUPercent c pid procCPUSeconds systemDelta hasSystemDelta numCPU;
                         cpuPercent = (if fst r < 0 then 0 else fst r);
                         memPercent' = (if memPercent < 0 then 0 else memPercent);
                         sent = emitInfos w hostname meta cpuPercent memPercent' infos
                     in (fst sent, snd sent, snd r)))))"

fun updatePids ::
  "world \<Rightarrow> string \<Rightarrow> real \<Rightarrow> bool \<Rightarrow> int \<Rightarrow> uint list \<Rightarrow> gpuProcessCollector
     \<Rightarrow> event list \<times> bool \<times> gpuProcessCollector" where
  "updatePids w hostname systemDelta hasSystemDelta numCPU [] c = ([], True, c)"
| "updatePids w hostname systemDelta hasSystemDelta numCPU (pid # pids) c =
     (case updatePid w hostname systemDelta hasSystemDelta numCPU c pid of
        (evs, ok, c1) \<Rightarrow>
          if ok
          then (case updatePids w hostname systemDelta hasSystemDelta numCPU pids c1 of
                  (tr, ok', c2) \<Rightarrow> (evs @ tr, ok', c2))
          else (evs, False, c1))"

text \<open>
  \<open>Update\<close>: the events of the cycle, how the call ends, and the collector afterwards.
  The group is destroyed by a deferred call, which also runs when the loop panics.
\<close>

definition Update :: "gpuProcessCollector \<Rightarrow> world \<Rightarrow> event list \<times> outcome \<times> gpuProcessCollector" where
  "Update c w =
     (let hn = hostNameOrDefault True w; listed = nvmlProcessPIDs w;
          pre = fst hn @ fst listed in
      case snd listed of
        Inl err \<Rightarrow>
          if errors_Is err errGPUProcessInfoUnavailable
          then (pre @ [Logged Debug ''gpu process listing unavailable''], Returned None, c)
          else (pre, Returned (Some (Wrap ''list gpu processes'' err)), c)
      | Inr pids \<Rightarrow>
          if pids = []
          then (pre @ [Logged Debug ''no gpu processes reported''], Returned None, resetCPUSamples c)
          else
            (case readTotalCPUSeconds w of
               Inl err \<Rightarrow> (pre, Returned (Some (Wrap ''read system cpu seconds'' err)), c)
             | Inr totalSeconds' \<Rightarrow>
                 (let sys = updateSystemSample c totalSeconds';
                      systemDelta = fst (fst sys); hasSystemDelta = snd (fst sys); c1 = snd sys;
                      numCPU = runtime_NumCPU w
                  in case dcgm_Init w of
                       Some err \<Rightarrow> (pre, Returned (Some (Wrap ''init dcgm'' err)), c1)
                     | None \<Rightarrow>
                         (case dcgm_WatchPidFields w of
                            Some err \<Rightarrow> (pre, Returned (Some (Wrap ''watch pid fields'' err)), c1)
                          | None \<Rightarrow>
                              (let destroy = (case dcgm_DestroyGroup w of
                                                Some err \<Rightarrow> [Logged Debug ''failed to destroy pid group'']
                                              | None \<Rightarrow> [])
                               in case updatePids w (snd hn) systemDelta hasSystemDelta numCPU pids c1 of
                                    (tr, ok, c2) \<Rightarrow>
                                      if ok
                                      then (pre @ tr @ destroy, Returned None, pruneCPUSamples c2 pids)
                                      else (pre @ tr @ destroy, Panicked, c2))))))"

section \<open>Concurrent calls of \<open>Update\<close> on one process collector\<close>

text \<open>
  The process collector is created once (\<open>NewNvidiaGPUCollector\<close> keeps it in
  \<open>initiatedCollectors\<close>) and every scrape calls \<open>Update\<close> on that one instance. The
  HTTP handler serves scrapes in parallel (\<open>web.max-requests\<close>, 40 by default), so two
  calls of \<open>Update\<close> can be in progress on the same collector. The struct has no mutex
  and \<open>Update\<close> takes no lock.

  A goroutine that runs \<open>Update\<close> is described by what it has left to do. Either it has
  ended, with the events it produced and its outcome, or it is about to call one of the
  four methods that read and write the state kept between cycles (\<open>resetCPUSamples\<close>,
  \<open>updateSystemSample\<close>, \<open>processCPUPercent\<close>, \<open>pruneCPUSamples\<close>): that call takes the
  collector as it is at that moment and gives the collector after the call and the rest
  of the goroutine. What a goroutine does between two such calls is local to it; what it
  reads from the environment is given by its own world. A method call is taken to run in
  one piece, which is to the advantage of the code: interleavings inside a method body,
  and the runtime's fatal error on concurrent map writes, are left out.
\<close>

datatype goroutine =
    Ended "event list" outcome
  | Step "gpuProcessCollector \<Rightarrow> gpuProcessCollector \<times> goroutine"

text \<open>
  The loop of \<open>Update\<close> over the pids, then \<open>pruneCPUSamples\<close>. \<open>evs\<close> are the events
  produced so far, \<open>destroy\<close> the events of the deferred call that destroys the group.
\<close>

fun Update_loop ::
  "world \<Rightarrow> string \<Rightarrow> real \<Rightarrow> bool \<Rightarrow> int \<Rightarrow> uint list \<Rightarrow> event list \<Rightarrow> event list \<Rightarrow> uint list
     \<Rightarrow> goroutine" where
  "Update_loop w hostname systemDelta hasSystemDelta numCPU active destroy evs [] =
     Step (\<lambda>c. (pruneCPUSamples c active, Ended (evs @ destroy) (Returned None)))"
| "Update_loop w hostname systemDelta hasSystemDelta numCPU active destroy evs (pid # pids) =
     (case dcgm_GetProcessInfo w pid of
        Inl err \<Rightarrow>
          Update_loop w hostname systemDelta hasSystemDelta numCPU active destroy
            (evs @ (if shouldIgnoreProcessError err then []
                    else [Logged Debug ''failed to get process info''])) pids
      | Inr infos \<Rightarrow>
          (case infos of
             [] \<Rightarrow> Update_loop w hostname systemDelta hasSystemDelta numCPU active destroy evs pids
           | info0 # rest \<Rightarrow>
               (case collectProcessInfo w pid (info_Name info0) of
                  Inl err \<Rightarrow>
                    Update_loop w hostname systemDelta hasSystemDelta numCPU active destroy
                      (evs @ [Logged Debug ''failed to collect host process info'']) pids
                | Inr (meta, memPercent, procCPUSeconds) \<Rightarrow>
                    Step (\<lambda>c.
                      let r = processCPUPercent c pid procCPUSeconds systemDelta hasSystemDelta numCPU;
                          cpuPercent = (if fst r < 0 then 0 else fst r);
                          memPercent' = (if memPercent < 0 then 0 else memPercent);
                          sent = emitInfos w hostname meta cpuPercent memPercent' infos
                      in (snd r,
                          if snd sent
                          then Update_loop w hostname systemDelta hasSystemDelta numCPU active destroy
                                 (evs @ fst sent) pids
                          else Ended (evs @ fst sent @ destroy) Panicked)))))"

text \<open>\<open>Update\<close> as a goroutine: the same function, cut at its calls on the collector.\<close>

definition Update_goroutine :: "world \<Rightarrow> goroutine" where
  "Update_goroutine w =
     (let hn = hostNameOrDefault True w; listed = nvmlProcessPIDs w;
          pre = fst hn @ fst listed in
      case snd listed of
        Inl err \<Rightarrow>
          if errors_Is err errGPUProcessInfoUnavailable
          then Ended (pre @ [Logged Debug ''gpu process listing unavailable'']) (Returned None)
          else Ended pre (Returned (Some (Wrap ''list gpu processes'' err)))
      | Inr pids \<Rightarrow>
          if pids = []
          then Step (\<lambda>c. (resetCPUSamples c,
                           Ended (pre @ [Logged Debug ''no gpu processes reported'']) (Returned None)))
          else
            (case readTotalCPUSeconds w of
               Inl err \<Rightarrow> Ended pre (Returned (Some (Wrap ''read system cpu seconds'' err)))
             | Inr totalSeconds' \<Rightarrow>
                 Step (\<lambda>c.
                   let sys = updateSystemSample c totalSeconds';
                       systemDelta = fst (fst sys); hasSystemDelta = snd (fst sys);
                       numCPU = runtime_NumCPU w
                   in (snd sys,
                       case dcgm_Init w of
                         Some err \<Rightarrow> Ended pre (Returned (Some (Wrap ''init dcgm'' err)))
                       | None \<Rightarrow>
                           (case dcgm_WatchPidFields w of
                              Some err \<Rightarrow> Ended pre (Returned (Some (Wrap ''watch pid fields'' err)))
                            | None \<Rightarrow>
                                (let destroy = (case dcgm_DestroyGroup w of
                                                  Some err \<Rightarrow> [Logged Debug ''failed to destroy pid group'']
                                                | None \<Rightarrow> [])
                                 in Update_loop w (snd hn) systemDelta hasSystemDelta numCPU pids
                                      destroy pre pids))))))"

text \<open>
  Goroutines that share a collector run concurrently: in each step of a schedule, one
  goroutine that has not ended makes its next call on the collector as the others have
  left it. \<open>schedule gs c gs' c'\<close> holds when some sequence of such steps leads from the
  goroutines \<open>gs\<close> and the collector \<open>c\<close> to the goroutines \<open>gs'\<close> and the collector \<open>c'\<close>.
\<close>

inductive schedule ::
  "goroutine list \<Rightarrow> gpuProcessCollector \<Rightarrow> goroutine list \<Rightarrow> gpuProcessCollector \<Rightarrow> bool" where
  stay: "schedule gs c gs c"
| call: "i < length gs \<Longrightarrow> gs ! i = Step f \<Longrightarrow> schedule (gs[i := snd (f c)]) (fst (f c)) gs' c'
         \<Longrightarrow> schedule gs c gs' c'"

section \<open>Notions used to state the properties\<close>

text \<open>
  What \<open>execute\<close> sees of a call of \<open>Update\<close> on the process collector: its events and
  how it ended.
\<close>

definition asCollector :: "event list \<times> outcome \<times> gpuProcessCollector \<Rightarrow> Collector" where
  "asCollector r = (fst r, fst (snd r))"

text \<open>The values of the success gauges among some events.\<close>

definition successValues :: "event list \<Rightarrow> real list" where
  "successValues evs =
     map gaugeValue (filter (\<lambda>m. metricDesc m = scrapeSuccessDesc) (metrics_of evs))"

text \<open>
  The cumulative CPU-seconds that the loop of \<open>Update\<close> reads for a pid, when its body
  gets as far as \<open>processCPUPercent\<close>: the DCGM record was read and is not empty, and the
  host process information was collected.
\<close>

definition sampledSeconds :: "world \<Rightarrow> uint \<Rightarrow> real option" where
  "sampledSeconds w pid =
     (case dcgm_GetProcessInfo w pid of
        Inl err \<Rightarrow> None
      | Inr infos \<Rightarrow>
          (case infos of
             [] \<Rightarrow> None
           | info0 # rest \<Rightarrow>
               (case collectProcessInfo w pid (info_Name info0) of
                  Inl err \<Rightarrow> None
                | Inr r \<Rightarrow> Some (snd (snd r)))))"

text \<open>
  The two meta-metrics of a collector: the duration gauge, and the success gauge, which
  is 1 when \<open>Update\<close> returned \<open>nil\<close> and 0 when it returned an error.
\<close>

definition durationGauge :: "string \<Rightarrow> real \<Rightarrow> Metric" where
  "durationGauge name seconds =
     \<lparr>metricDesc = scrapeDurationDesc, gaugeValue = seconds, labelValues = [name]\<rparr>"

definition successGauge :: "string \<Rightarrow> outcome \<Rightarrow> Metric" where
  "successGauge name oc =
     \<lparr>metricDesc = scrapeSuccessDesc,
      gaugeValue = (case oc of Returned None \<Rightarrow> 1 | Returned (Some err) \<Rightarrow> 0 | Panicked \<Rightarrow> 0),
      labelValues = [name]\<rparr>"

section \<open>Example states and worlds\<close>

text \<open>
  The scenario of the specification: the system counter stood at 100 CPU-seconds and
  pid 42 at 2 CPU-seconds when the previous cycle ended.
\<close>

definition c_100 :: gpuProcessCollector where
  "c_100 = \<lparr>cpuSamples = [42 \<mapsto> \<lparr>cpuSeconds = 2\<rparr>],
            systemSample = \<lparr>totalSeconds = 100, initialized = True\<rparr>\<rparr>"

text \<open>
  A host with one GPU, eight logical CPUs and one GPU process, pid 42, which has used
  3 CPU-seconds by now, while the system counter stands at 110.
\<close>

definition proc_python :: Process where
  "proc_python =
     \<lparr>proc_Name = Inr ''python'', proc_Uids = Inr [1000], proc_Cmdline = Inr ''python train.py'',
      proc_CmdlineSlice = Inr [''python'', ''train.py''], proc_MemoryPercent = Inr (3/2),
      proc_Times = Inr \<lparr>User = 2, System = 1, Nice = 0, Irq = 0, Softirq = 0, Steal = 0,
                        Idle = 0, Iowait = 0, Guest = 0, GuestNice = 0\<rparr>\<rparr>"

definition dev_python :: nvml_Device where
  "dev_python =
     \<lparr>GetComputeRunningProcesses = ([\<lparr>Pid = 42, UsedGpuMemory = 1024\<rparr>], SUCCESS),
      GetGraphicsRunningProcesses = ([], ERROR_NOT_SUPPORTED)\<rparr>"

definition w_base :: world where
  "w_base =
     \<lparr>os_Hostname = Inr ''gpu-host'',
      os_Getenv = (\<lambda>key. []),
      nvml_Init = SUCCESS,
      nvml_Shutdown = SUCCESS,
      nvml_ErrorString = (\<lambda>ret. ''nvml error''),
      nvml_DeviceGetCount = (1, SUCCESS),
      nvml_DeviceGetHandleByIndex = (\<lambda>i. (dev_python, SUCCESS)),
      cpu_Times = Inr [\<lparr>User = 60, System = 20, Nice = 0, Irq = 0, Softirq = 0, Steal = 0,
                        Idle = 30, Iowait = 0, Guest = 0, GuestNice = 0\<rparr>],
      runtime_NumCPU = 8,
      dcgm_Init = None,
      dcgm_WatchPidFields = None,
      dcgm_DestroyGroup = None,
      dcgm_GetProcessInfo = (\<lambda>pid. Inr [\<lparr>info_GPU = 0, info_PID = pid, info_Name = ''python'',
                                           Memory_GlobalUsed = 1024\<rparr>]),
      dcgm_IsInt64Blank = (\<lambda>v. 0x7ffffffffffffff0 \<le> v),
      process_NewProcess = (\<lambda>pid. Inr proc_python)\<rparr>"

definition labels_python :: "string list" where
  "labels_python = [''gpu-host'', ''0'', ''42'', ''python'', ''1000'', ''python train.py'']"

text \<open>The same host when the NVIDIA driver is not loaded.\<close>

definition w_driver_missing :: world where
  "w_driver_missing = w_base\<lparr>nvml_Init := ERROR_DRIVER_NOT_LOADED\<rparr>"

text \<open>The same host when counting the devices answers "not supported".\<close>

definition w_not_supported :: world where
  "w_not_supported = w_base\<lparr>nvml_DeviceGetCount := (0, ERROR_NOT_SUPPORTED)\<rparr>"

text \<open>
  The same host when the driver refuses both process listings of the device, one as
  "not supported" and one as "no permission".
\<close>

definition w_lists_refused :: world where
  "w_lists_refused = w_base\<lparr>nvml_DeviceGetHandleByIndex :=
              (\<lambda>i. (\<lparr>GetComputeRunningProcesses = ([], ERROR_NO_PERMISSION),
                      GetGraphicsRunningProcesses = ([], ERROR_NOT_SUPPORTED)\<rparr>, SUCCESS))\<rparr>"

text \<open>The same host when no process uses the GPU.\<close>

definition w_idle :: world where
  "w_idle = w_base\<lparr>nvml_DeviceGetHandleByIndex :=
              (\<lambda>i. (\<lparr>GetComputeRunningProcesses = ([], SUCCESS),
                      GetGraphicsRunningProcesses = ([], SUCCESS)\<rparr>, SUCCESS))\<rparr>"

text \<open>The same host when pid 42 has exited between the NVML listing and the host lookup.\<close>

definition w_gone :: world where
  "w_gone = w_base\<lparr>process_NewProcess := (\<lambda>pid. Inl (ErrorString ''process does not exist''))\<rparr>"

text \<open>A host whose hostname cannot be read, while \<open>NODE_NAME\<close> is set.\<close>

definition w_nohost :: world where
  "w_nohost = w_base\<lparr>os_Hostname := Inl (ErrorString ''hostname unavailable''),
                     os_Getenv := (\<lambda>key. if key = ''NODE_NAME'' then ''node-1'' else [])\<rparr>"

text \<open>
  A command line of 67 euro signs: 67 code points in 201 bytes (each sign is the three
  bytes E2 82 AC).
\<close>

definition euro :: string where
  "euro = [CHR 0xE2, CHR 0x82, CHR 0xAC]"

definition w_euro :: world where
  "w_euro = w_base\<lparr>process_NewProcess :=
              (\<lambda>pid. Inr (proc_python\<lparr>proc_Cmdline := Inr (concat (replicate 67 euro))\<rparr>))\<rparr>"

text \<open>A collector that still holds a sample for pid 7, which has exited since.\<close>

definition c_two :: gpuProcessCollector where
  "c_two = \<lparr>cpuSamples = [42 \<mapsto> \<lparr>cpuSeconds = 2\<rparr>, 7 \<mapsto> \<lparr>cpuSeconds = 5\<rparr>],
            systemSample = \<lparr>totalSeconds = 100, initialized = True\<rparr>\<rparr>"

text \<open>
  A scrape with two collectors: the device collector fails with a hard error (its DCGM
  initialisation fails), the process collector runs the cycle of \<open>w_base\<close>.
\<close>

definition cs_two :: "(string \<times> Collector) list" where
  "cs_two =
     [(''gpu_metrics'',
       ([], Returned (Some (Wrap ''failed to initialize DCGM'' (ErrorString ''dcgm not running''))))),
      (''gpu_process'', asCollector (Update c_100 w_base))]"

text \<open>
  One order in which the events of the two goroutines of that scrape may arrive, each
  collector taking 10 ms; the process collector is still sending when the device
  collector has already failed.
\<close>

definition ch_two :: "event list" where
  "ch_two =
     [Logged Debug ''nvml process info unavailable'',
      Logged Error ''collector failed'',
      Sent \<lparr>metricDesc = processGPUMem, gaugeValue = 1024, labelValues = labels_python\<rparr>,
      Sent \<lparr>metricDesc = processCPU, gaugeValue = 80, labelValues = labels_python\<rparr>,
      Sent (durationGauge ''gpu_metrics'' (1/100)),
      Sent \<lparr>metricDesc = processMem, gaugeValue = 3/2, labelValues = labels_python\<rparr>,
      Sent (successGauge ''gpu_metrics''
              (Returned (Some (Wrap ''failed to initialize DCGM'' (ErrorString ''dcgm not running''))))),
      Logged Debug ''collector succeeded'',
      Sent (durationGauge ''gpu_process'' (1/100)),
      Sent (successGauge ''gpu_process'' (Returned None))]"

text \<open>A scrape with one collector, which has nothing to report and says so.\<close>

definition cs_nodata :: "(string \<times> Collector) list" where
  "cs_nodata = [(''gpu_metrics'', ([], Returned (Some ErrNoData)))]"

definition ch_nodata :: "event list" where
  "ch_nodata =
     [Logged Debug ''collector returned no data'',
      Sent (durationGauge ''gpu_metrics'' (1/100)),
      Sent (successGauge ''gpu_metrics'' (Returned (Some ErrNoData)))]"

text \<open>
  Two scrapes in flight on one process collector. The first reads the host as \<open>w_base\<close>
  has it; the second reads it a little later, when the system counter stands at 120 and
  pid 42 has used 4 CPU-seconds.
\<close>

definition w_later :: world where
  "w_later = w_base\<lparr>cpu_Times := Inr [\<lparr>User = 66, System = 22, Nice = 0, Irq = 0, Softirq = 0,
                                         Steal = 0, Idle = 32, Iowait = 0, Guest = 0, GuestNice = 0\<rparr>],
                     process_NewProcess := (\<lambda>pid. Inr (proc_python\<lparr>proc_Times :=
                        Inr \<lparr>User = 3, System = 1, Nice = 0, Irq = 0, Softirq = 0, Steal = 0,
                             Idle = 0, Iowait = 0, Guest = 0, GuestNice = 0\<rparr>\<rparr>))\<rparr>"

text \<open>The events of a cycle on that host in which the CPU gauge of pid 42 is \<open>v\<close>.\<close>

definition sent_python :: "real \<Rightarrow> event list" where
  "sent_python v =
     [Logged Debug ''nvml process info unavailable'',
      Sent \<lparr>metricDesc = processGPUMem, gaugeValue = 1024, labelValues = labels_python\<rparr>,
      Sent \<lparr>metricDesc = processCPU, gaugeValue = v, labelValues = labels_python\<rparr>,
      Sent \<lparr>metricDesc = processMem, gaugeValue = 3/2, labelValues = labels_python\<rparr>]"

text \<open>
  The collector after a cycle that read 110 and 3, after a cycle that read 120 and 4, and
  with the system sample of the one and the sample of pid 42 of the other.
\<close>

definition c_110 :: gpuProcessCollector where
  "c_110 = \<lparr>cpuSamples = [42 \<mapsto> \<lparr>cpuSeconds = 3\<rparr>],
            systemSample = \<lparr>totalSeconds = 110, initialized = True\<rparr>\<rparr>"

definition c_120 :: gpuProcessCollector where
  "c_120 = \<lparr>cpuSamples = [42 \<mapsto> \<lparr>cpuSeconds = 4\<rparr>],
            systemSample = \<lparr>totalSeconds = 120, initialized = True\<rparr>\<rparr>"

definition c_lost :: gpuProcessCollector where
  "c_lost = \<lparr>cpuSamples = [42 \<mapsto> \<lparr>cpuSeconds = 3\<rparr>],
             systemSample = \<lparr>totalSeconds = 120, initialized = True\<rparr>\<rparr>"

section \<open>Auxiliary facts\<close>

declare segments.simps [simp del]
declare FormatUint.simps [simp del]

subsection \<open>Strings\<close>

lemma segments_ascii:
  "list_all (\<lambda>b. b < 128) bs \<Longrightarrow> segments bs = map (\<lambda>b. (b, [b])) bs"
  by (induction bs) (auto simp: DecodeRune_def segments.simps)

lemma concat_segments: "concat (map snd (segments bs)) = bs"
proof (induction bs rule: segments.induct)
  case 1
  then show ?case by (simp add: segments.simps)
next
  case (2 b bs)
  then show ?case by (simp add: segments.simps)
qed

lemma string_of_bytes_of: "string_of (bytes_of s) = s"
  by (simp add: string_of_def bytes_of_def comp_def map_idI)

lemma TrimSpace_unchanged:
  assumes "segments (bytes_of s) = sgs" and "sgs \<noteq> []"
    and "\<not> IsSpace (fst (hd sgs))" and "\<not> IsSpace (fst (last sgs))"
  shows "TrimSpace s = s"
proof -
  have a: "dropWhile (\<lambda>sg. IsSpace (fst sg)) sgs = sgs"
    using assms(2,3) by (cases sgs) auto
  have b: "dropWhile (\<lambda>sg. IsSpace (fst sg)) (rev sgs) = rev sgs"
    using assms(2,4) by (cases "rev sgs") (auto simp: hd_rev dest: arg_cong [where f = hd])
  show ?thesis
    using assms(1) a b concat_segments [of "bytes_of s"]
    by (simp add: TrimSpace_def string_of_bytes_of)
qed

lemma ascii_segments:
  "list_all (\<lambda>c. of_char c < (128::nat)) s \<Longrightarrow>
     segments (bytes_of s) = map (\<lambda>c. (of_char c, [of_char c])) s"
  by (simp add: bytes_of_def segments_ascii list_all_iff comp_def)

lemma TrimSpace_ascii:
  assumes "list_all (\<lambda>c. of_char c < (128::nat)) s" and "s \<noteq> []"
    and "\<not> IsSpace (of_char (hd s))" and "\<not> IsSpace (of_char (last s))"
  shows "TrimSpace s = s"
  using assms TrimSpace_unchanged [OF ascii_segments [OF assms(1)]]
  by (simp add: hd_map last_map)

lemma ValidString_ascii:
  "list_all (\<lambda>c. of_char c < (128::nat)) s \<Longrightarrow> ValidString s"
  by (auto simp: ValidString_def ascii_segments bad_segment_def RuneError_def
      filter_empty_conv list_all_iff)

subsection \<open>Events\<close>

lemma metrics_of_append: "metrics_of (a @ b) = metrics_of a @ metrics_of b"
  by (induction a rule: metrics_of.induct) auto

lemma metrics_of_hostNameOrDefault: "metrics_of (fst (hostNameOrDefault l w)) = []"
  by (simp add: hostNameOrDefault_def Let_def split: sum.splits)

lemma metrics_of_addNVMLProcessInfo:
  "metrics_of (fst (addNVMLProcessInfo w ps getter typ i)) = []"
  by (simp add: addNVMLProcessInfo_def Let_def)

lemma metrics_of_nvmlDevices: "metrics_of (fst (nvmlDevices w idxs ps)) = []"
proof (induction idxs arbitrary: ps)
  case Nil
  then show ?case by simp
next
  case (Cons i rest)
  have a: "metrics_of l = []" if "addNVMLProcessInfo w ps' g t i = (l, r)" for l r ps' g t
    using metrics_of_addNVMLProcessInfo [of w ps' g t i] that by simp
  have b: "metrics_of l = []" if "nvmlDevices w rest ps' = (l, r)" for l r ps'
    using Cons.IH [of ps'] that by simp
  show ?case
    by (auto simp: Let_def metrics_of_append split: prod.splits option.splits dest: a b)
qed

lemma metrics_of_nvmlProcessPIDs: "metrics_of (fst (nvmlProcessPIDs w)) = []"
proof -
  have a: "metrics_of l = []" if "nvmlDevices w idxs ps = (l, r)" for l r idxs ps
    using metrics_of_nvmlDevices [of w idxs ps] that by simp
  show ?thesis
    by (auto simp: nvmlProcessPIDs_def Let_def metrics_of_append
        split: prod.splits sum.splits dest: a)
qed

lemma logs_of_append: "logs_of (a @ b) = logs_of a @ logs_of b"
  by (induction a rule: logs_of.induct) auto

lemma levels_hostNameOrDefault:
  "list_all (\<lambda>l. fst l \<noteq> Error) (logs_of (fst (hostNameOrDefault b w)))"
  by (simp add: hostNameOrDefault_def Let_def split: sum.splits)

lemma levels_addNVMLProcessInfo:
  "list_all (\<lambda>l. fst l \<noteq> Error) (logs_of (fst (addNVMLProcessInfo w ps getter kind i)))"
  by (simp add: addNVMLProcessInfo_def Let_def)

lemma levels_nvmlDevices:
  "list_all (\<lambda>l. fst l \<noteq> Error) (logs_of (fst (nvmlDevices w idxs ps)))"
proof (induction idxs arbitrary: ps)
  case Nil
  then show ?case by simp
next
  case (Cons i rest)
  have a: "list_all (\<lambda>l. fst l \<noteq> Error) (logs_of l)"
    if "addNVMLProcessInfo w ps' g t i = (l, r)" for l r ps' g t
    using levels_addNVMLProcessInfo [of w ps' g t i] that by simp
  have b: "list_all (\<lambda>l. fst l \<noteq> Error) (logs_of l)"
    if "nvmlDevices w rest ps' = (l, r)" for l r ps'
    using Cons.IH [of ps'] that by simp
  show ?case
    by (auto simp: Let_def logs_of_append split: prod.splits option.splits dest: a b)
qed

lemma levels_nvmlProcessPIDs:
  "list_all (\<lambda>l. fst l \<noteq> Error) (logs_of (fst (nvmlProcessPIDs w)))"
proof -
  have a: "list_all (\<lambda>l. fst l \<noteq> Error) (logs_of l)"
    if "nvmlDevices w idxs ps = (l, r)" for l r idxs ps
    using levels_nvmlDevices [of w idxs ps] that by simp
  show ?thesis
    by (auto simp: nvmlProcessPIDs_def Let_def logs_of_append
        split: prod.splits sum.splits dest: a)
qed

subsection \<open>The listing and the paths of Update\<close>

lemma errors_Is_wrapNVML:
  "errors_Is (wrapNVMLAvailabilityError w op ret) errGPUProcessInfoUnavailable =
     (ret = ERROR_UNINITIALIZED \<or> ret = ERROR_LIBRARY_NOT_FOUND
      \<or> ret = ERROR_DRIVER_NOT_LOADED \<or> ret = ERROR_NOT_SUPPORTED
      \<or> ret = ERROR_NO_PERMISSION \<or> ret = ERROR_UNKNOWN)"
  by (simp add: wrapNVMLAvailabilityError_def)

lemma addNVMLProcessInfo_error:
  "addNVMLProcessInfo w ps getter typ i = (lg, Some err, ps') \<Longrightarrow>
     \<not> errors_Is err errGPUProcessInfoUnavailable"
  by (auto simp: addNVMLProcessInfo_def Let_def split: if_splits)

lemma nvmlDevices_error:
  "nvmlDevices w idxs ps = (lg, Inl err) \<Longrightarrow> \<not> errors_Is err errGPUProcessInfoUnavailable"
proof (induction idxs arbitrary: ps lg)
  case Nil
  then show ?case by simp
next
  case (Cons i rest)
  then show ?case
    by (auto simp: Let_def split: if_splits prod.splits option.splits
        dest: addNVMLProcessInfo_error)
qed

lemma listing_unavailable_iff:
  "(\<exists>err. snd (nvmlProcessPIDs w) = Inl err \<and> errors_Is err errGPUProcessInfoUnavailable) =
     (errors_Is (wrapNVMLAvailabilityError w ''nvml init'' (nvml_Init w)) errGPUProcessInfoUnavailable
      \<or> (nvml_Init w = SUCCESS \<and>
          errors_Is (wrapNVMLAvailabilityError w ''nvml device count'' (snd (nvml_DeviceGetCount w)))
            errGPUProcessInfoUnavailable))"
  by (auto simp: nvmlProcessPIDs_def Let_def errors_Is_wrapNVML wrapNVMLAvailabilityError_def
      split: if_splits prod.splits sum.splits dest: nvmlDevices_error)

lemma Update_listing_error:
  "snd (nvmlProcessPIDs w) = Inl err \<Longrightarrow>
   Update c w =
     (if errors_Is err errGPUProcessInfoUnavailable
      then (fst (hostNameOrDefault True w) @ fst (nvmlProcessPIDs w)
              @ [Logged Debug ''gpu process listing unavailable''], Returned None, c)
      else (fst (hostNameOrDefault True w) @ fst (nvmlProcessPIDs w),
            Returned (Some (Wrap ''list gpu processes'' err)), c))"
  by (simp add: Update_def Let_def)

lemma Update_no_pids:
  "snd (nvmlProcessPIDs w) = Inr [] \<Longrightarrow>
   Update c w =
     (fst (hostNameOrDefault True w) @ fst (nvmlProcessPIDs w)
        @ [Logged Debug ''no gpu processes reported''], Returned None, resetCPUSamples c)"
  by (simp add: Update_def Let_def)

subsection \<open>Evaluation in the example worlds\<close>

lemma upto_0_0: "[0..(0::int)] = [0]"
  by (simp add: upto.simps)

lemma w_base_sel:
  "dcgm_Init w_base = None" "dcgm_WatchPidFields w_base = None" "dcgm_DestroyGroup w_base = None"
  "runtime_NumCPU w_base = 8"
  "dcgm_GetProcessInfo w_base pid =
     Inr [\<lparr>info_GPU = 0, info_PID = pid, info_Name = ''python'', Memory_GlobalUsed = 1024\<rparr>]"
  "process_NewProcess w_base p = Inr proc_python"
  "nvml_Init w_base = SUCCESS" "nvml_DeviceGetCount w_base = (1, SUCCESS)"
  "os_Hostname w_base = Inr ''gpu-host''" "os_Getenv w_base key = []"
  "nvml_Shutdown w_base = SUCCESS" "nvml_DeviceGetHandleByIndex w_base i = (dev_python, SUCCESS)"
  "nvml_ErrorString w_base ret = ''nvml error''"
  "cpu_Times w_base = Inr [\<lparr>User = 60, System = 20, Nice = 0, Irq = 0, Softirq = 0, Steal = 0,
                         Idle = 30, Iowait = 0, Guest = 0, GuestNice = 0\<rparr>]"
  by (simp_all add: w_base_def)

lemma pids_base:
  "nvmlProcessPIDs w_base = ([Logged Debug ''nvml process info unavailable''], Inr [42])"
  by (simp add: nvmlProcessPIDs_def w_base_def Let_def upto_0_0 addNVMLProcessInfo_def
      dev_python_def)

lemma host_base: "hostNameOrDefault True w_base = ([], ''gpu-host'')"
  by (simp add: hostNameOrDefault_def w_base_def)

lemma total_base: "readTotalCPUSeconds w_base = Inr 110"
  by (simp add: readTotalCPUSeconds_def w_base_def)

lemma collect_base:
  "collectProcessInfo w_base 42 ''python'' =
     Inr (\<lparr>meta_name = ''python'', meta_uid = ''1000'', meta_command = ''python train.py''\<rparr>,
          3/2, 3)"
  by (simp add: collectProcessInfo_def w_base_def proc_python_def FormatInt_def FormatUint.simps
      digit_def limitCommand_def maxCommandLabelLength_def unknownProcessLabel_def
      TrimSpace_ascii IsSpace_def)

lemma emit_base:
  "emitInfo w_base ''gpu-host''
     \<lparr>meta_name = ''python'', meta_uid = ''1000'', meta_command = ''python train.py''\<rparr> v m
     \<lparr>info_GPU = 0, info_PID = 42, info_Name = ''python'', Memory_GlobalUsed = 1024\<rparr>
   = ([Sent \<lparr>metricDesc = processGPUMem, gaugeValue = 1024, labelValues = labels_python\<rparr>,
       Sent \<lparr>metricDesc = processCPU, gaugeValue = v, labelValues = labels_python\<rparr>,
       Sent \<lparr>metricDesc = processMem, gaugeValue = m, labelValues = labels_python\<rparr>], True)"
  by (simp add: emitInfo_def andThen_def send_def MustNewConstMetric_def sanitizeBytes_def
      w_base_def processGPUMem_def processCPU_def processMem_def processLabels_def
      FormatUint.simps digit_def ValidString_ascii labels_python_def Let_def)

lemma Update_base:
  "fst (Update c_100 w_base) =
     [Logged Debug ''nvml process info unavailable'',
      Sent \<lparr>metricDesc = processGPUMem, gaugeValue = 1024, labelValues = labels_python\<rparr>,
      Sent \<lparr>metricDesc = processCPU, gaugeValue = 80, labelValues = labels_python\<rparr>,
      Sent \<lparr>metricDesc = processMem, gaugeValue = 3/2, labelValues = labels_python\<rparr>]
   \<and> fst (snd (Update c_100 w_base)) = Returned None
   \<and> cpuSamples (snd (snd (Update c_100 w_base))) = [42 \<mapsto> \<lparr>cpuSeconds = 3\<rparr>]
   \<and> systemSample (snd (snd (Update c_100 w_base))) = \<lparr>totalSeconds = 110, initialized = True\<rparr>"
  by (simp add: Update_def pids_base host_base total_base Let_def updatePid_def collect_base
      emit_base updateSystemSample_def processCPUPercent_def pruneCPUSamples_def c_100_def
      fun_eq_iff w_base_sel andThen_def)

section \<open>Properties of the sampling state\<close>

text \<open>
  C6. \<open>updateSystemSample\<close>: the delta returned is the current reading minus the
  previous one when a previous sample exists and the current reading is not below it,
  and 0 in every other case, so it is never negative; the delta is marked valid exactly
  when a previous sample existed and the delta is strictly positive; and the stored
  system sample becomes the current reading, initialized, in every case, the first call
  included. The per-pid samples are not touched.
\<close>

theorem updateSystemSample_delta_valid_store:
  "fst (fst (updateSystemSample c cur)) =
     (if initialized (systemSample c) \<and> cur \<ge> totalSeconds (systemSample c)
      then cur - totalSeconds (systemSample c) else 0)
   \<and> 0 \<le> fst (fst (updateSystemSample c cur))
   \<and> snd (fst (updateSystemSample c cur)) =
       (initialized (systemSample c) \<and> 0 < fst (fst (updateSystemSample c cur)))
   \<and> systemSample (snd (updateSystemSample c cur)) = \<lparr>totalSeconds = cur, initialized = True\<rparr>
   \<and> cpuSamples (snd (updateSystemSample c cur)) = cpuSamples c"
  by (simp add: updateSystemSample_def Let_def)

theorem updateSystemSample_delta_valid_store_witness:
  "fst (updateSystemSample c_100 110) = (10, True)
   \<and> fst (updateSystemSample c_100 90) = (0, False)
   \<and> systemSample (snd (updateSystemSample c_100 90)) = \<lparr>totalSeconds = 90, initialized = True\<rparr>
   \<and> fst (updateSystemSample NewGPUProcessCollector 100) = (0, False)
   \<and> systemSample (snd (updateSystemSample NewGPUProcessCollector 100))
       = \<lparr>totalSeconds = 100, initialized = True\<rparr>"
  using updateSystemSample_delta_valid_store [of c_100 110]
    updateSystemSample_delta_valid_store [of c_100 90]
    updateSystemSample_delta_valid_store [of NewGPUProcessCollector 100]
  by (simp add: prod_eq_iff c_100_def NewGPUProcessCollector_def systemCPUSample_zero_def)

lemma updateSystemSample_valid_positive:
  "fst (updateSystemSample c cur) = (d, True) \<Longrightarrow> 0 < d"
  by (auto simp: updateSystemSample_def Let_def split: if_splits)

text \<open>
  C2. \<open>processCPUPercent\<close>, called with the delta and the validity flag that
  \<open>updateSystemSample\<close> returned in the cycle and with a number of logical CPUs that is
  not negative: the result is 0 when the pid has no prior sample, or its CPU-seconds
  delta is at most 0, or the system delta is not valid; otherwise it is
  (processDelta / systemDelta) * numCPU * 100. The result is never negative, and the
  sample stored for the pid is the current reading in every case.
\<close>

theorem processCPUPercent_in_cycle:
  assumes sys: "fst (updateSystemSample c0 cur) = (systemDelta, hasSystemDelta)"
    and cpus: "0 \<le> numCPU"
  shows "fst (processCPUPercent c pid procSeconds systemDelta hasSystemDelta numCPU) =
           (case cpuSamples c pid of
              None \<Rightarrow> 0
            | Some prev \<Rightarrow>
                if procSeconds - cpuSeconds prev \<le> 0 \<or> \<not> hasSystemDelta then 0
                else ((procSeconds - cpuSeconds prev) / systemDelta) * real_of_int numCPU * 100)
         \<and> 0 \<le> fst (processCPUPercent c pid procSeconds systemDelta hasSystemDelta numCPU)
         \<and> snd (processCPUPercent c pid procSeconds systemDelta hasSystemDelta numCPU) =
             c\<lparr>cpuSamples := (cpuSamples c)(pid \<mapsto> \<lparr>cpuSeconds = procSeconds\<rparr>)\<rparr>"
proof -
  have pos: "0 < systemDelta" if "hasSystemDelta"
    using that sys updateSystemSample_valid_positive [of c0 cur systemDelta] by simp
  show ?thesis
  proof (cases "cpuSamples c pid")
    case None
    then show ?thesis by (simp add: processCPUPercent_def)
  next
    case (Some prev)
    show ?thesis
    proof (cases "hasSystemDelta")
      case False
      with Some show ?thesis by (simp add: processCPUPercent_def)
    next
      case True
      with pos have "0 < systemDelta" by simp
      with Some True cpus show ?thesis
        by (simp add: processCPUPercent_def)
    qed
  qed
qed

theorem processCPUPercent_in_cycle_witness:
  "fst (updateSystemSample c_100 110) = (10, True)
   \<and> fst (processCPUPercent (snd (updateSystemSample c_100 110)) 42 3 10 True 8) = 80
   \<and> cpuSamples (snd (processCPUPercent (snd (updateSystemSample c_100 110)) 42 3 10 True 8)) 42
       = Some \<lparr>cpuSeconds = 3\<rparr>"
proof -
  have sys: "fst (updateSystemSample c_100 110) = (10, True)"
    by (simp add: updateSystemSample_def c_100_def)
  have cpus: "(0::int) \<le> 8" by simp
  show ?thesis
    using sys processCPUPercent_in_cycle [OF sys cpus, of "snd (updateSystemSample c_100 110)" 42 3]
    by (simp add: updateSystemSample_def c_100_def)
qed

section \<open>Cycles in which the GPU process listing is unavailable\<close>

lemma Update_unavailable:
  assumes "snd (nvmlProcessPIDs w) = Inl err" and "errors_Is err errGPUProcessInfoUnavailable"
  shows "Update c w =
           (fst (hostNameOrDefault True w) @ fst (nvmlProcessPIDs w)
              @ [Logged Debug ''gpu process listing unavailable''], Returned None, c)"
  using assms by (simp add: Update_listing_error)

lemma pids_driver_missing:
  "nvmlProcessPIDs w_driver_missing =
     ([], Inl (Wrap ''nvml init: gpu process list unavailable (nvml error)''
                 errGPUProcessInfoUnavailable))"
  by (simp add: nvmlProcessPIDs_def w_driver_missing_def w_base_def wrapNVMLAvailabilityError_def)

lemma pids_not_supported:
  "nvmlProcessPIDs w_not_supported =
     ([], Inl (Wrap ''nvml device count: gpu process list unavailable (nvml error)''
                 errGPUProcessInfoUnavailable))"
  by (simp add: nvmlProcessPIDs_def w_not_supported_def w_base_def wrapNVMLAvailabilityError_def)

text \<open>
  C10. When the listing of the GPU processes fails with an error that wraps
  \<open>errGPUProcessInfoUnavailable\<close>, \<open>Update\<close> returns \<open>nil\<close> and the collector is exactly
  as it was before the call: the per-pid samples and the system sample are unchanged,
  so the next cycle runs as if the unavailable one had not happened.
\<close>

theorem Update_unavailable_keeps_state:
  assumes "snd (nvmlProcessPIDs w) = Inl err" and "errors_Is err errGPUProcessInfoUnavailable"
  shows "fst (snd (Update c w)) = Returned None
         \<and> snd (snd (Update c w)) = c
         \<and> cpuSamples (snd (snd (Update c w))) = cpuSamples c
         \<and> systemSample (snd (snd (Update c w))) = systemSample c
         \<and> Update (snd (snd (Update c w))) w' = Update c w'"
  by (simp add: Update_unavailable [OF assms])

theorem Update_unavailable_keeps_state_witness:
  "errors_Is (Wrap ''nvml init: gpu process list unavailable (nvml error)''
                errGPUProcessInfoUnavailable) errGPUProcessInfoUnavailable
   \<and> fst (snd (Update c_100 w_driver_missing)) = Returned None
   \<and> snd (snd (Update c_100 w_driver_missing)) = c_100
   \<and> map gaugeValue (filter (\<lambda>m. metricDesc m = processCPU)
         (metrics_of (fst (Update (snd (snd (Update c_100 w_driver_missing))) w_base)))) = [80]"
proof -
  have l: "snd (nvmlProcessPIDs w_driver_missing) =
             Inl (Wrap ''nvml init: gpu process list unavailable (nvml error)''
                    errGPUProcessInfoUnavailable)"
    by (simp add: pids_driver_missing)
  have u: "errors_Is (Wrap ''nvml init: gpu process list unavailable (nvml error)''
                        errGPUProcessInfoUnavailable) errGPUProcessInfoUnavailable"
    by simp
  have d: "processGPUMem \<noteq> processCPU" "processMem \<noteq> processCPU"
    by (simp_all add: processGPUMem_def processCPU_def processMem_def BuildFQName_def
        namespace_def GPUProcessSubsystem_def)
  show ?thesis
    using u Update_unavailable_keeps_state [OF l u, of c_100 w_base] Update_base d
    by simp
qed

section \<open>What the scrape reports for an unavailable listing\<close>

lemma execute_returned_nil:
  assumes "ValidString name" and "snd c = Returned None"
  shows "execute name c duration =
           Some (fst c @ [Logged Debug ''collector succeeded'',
                          Sent \<lparr>metricDesc = scrapeDurationDesc, gaugeValue = duration,
                                labelValues = [name]\<rparr>,
                          Sent \<lparr>metricDesc = scrapeSuccessDesc, gaugeValue = 1,
                                labelValues = [name]\<rparr>])"
  using assms
  by (simp add: execute_def MustNewConstMetric_def scrapeDurationDesc_def scrapeSuccessDesc_def)

lemma meta_descs_differ: "scrapeDurationDesc \<noteq> scrapeSuccessDesc"
  by (simp add: scrapeDurationDesc_def scrapeSuccessDesc_def BuildFQName_def namespace_def)

lemma nvmlDevices_refused:
  assumes "list_all (\<lambda>i. snd (nvml_DeviceGetHandleByIndex w i) = SUCCESS
              \<and> snd (GetComputeRunningProcesses (fst (nvml_DeviceGetHandleByIndex w i)))
                  \<in> {ERROR_NOT_SUPPORTED, ERROR_NO_PERMISSION, ERROR_NOT_FOUND}
              \<and> snd (GetGraphicsRunningProcesses (fst (nvml_DeviceGetHandleByIndex w i)))
                  \<in> {ERROR_NOT_SUPPORTED, ERROR_NO_PERMISSION, ERROR_NOT_FOUND}) idxs"
  shows "snd (nvmlDevices w idxs ps) = Inr ps"
  using assms
proof (induction idxs)
  case Nil
  show ?case by simp
next
  case (Cons i rest)
  from Cons.prems have h: "snd (nvml_DeviceGetHandleByIndex w i) = SUCCESS"
    and c: "snd (GetComputeRunningProcesses (fst (nvml_DeviceGetHandleByIndex w i)))
              \<in> {ERROR_NOT_SUPPORTED, ERROR_NO_PERMISSION, ERROR_NOT_FOUND}"
    and g: "snd (GetGraphicsRunningProcesses (fst (nvml_DeviceGetHandleByIndex w i)))
              \<in> {ERROR_NOT_SUPPORTED, ERROR_NO_PERMISSION, ERROR_NOT_FOUND}"
    by simp_all
  have a: "addNVMLProcessInfo w ps' getter kind i =
             ([Logged Debug ''nvml process info unavailable''], None, ps')"
    if "snd getter \<in> {ERROR_NOT_SUPPORTED, ERROR_NO_PERMISSION, ERROR_NOT_FOUND}"
    for ps' getter kind
    using that by (auto simp: addNVMLProcessInfo_def Let_def)
  from Cons.IH Cons.prems have ih: "snd (nvmlDevices w rest ps) = Inr ps"
    by simp
  show ?case
    using h ih by (auto simp: Let_def a [OF c] a [OF g] split: prod.splits)
qed

lemma listing_refused:
  assumes "nvml_Init w = SUCCESS" and "snd (nvml_DeviceGetCount w) = SUCCESS"
    and "list_all (\<lambda>i. snd (nvml_DeviceGetHandleByIndex w i) = SUCCESS
              \<and> snd (GetComputeRunningProcesses (fst (nvml_DeviceGetHandleByIndex w i)))
                  \<in> {ERROR_NOT_SUPPORTED, ERROR_NO_PERMISSION, ERROR_NOT_FOUND}
              \<and> snd (GetGraphicsRunningProcesses (fst (nvml_DeviceGetHandleByIndex w i)))
                  \<in> {ERROR_NOT_SUPPORTED, ERROR_NO_PERMISSION, ERROR_NOT_FOUND})
           [0..fst (nvml_DeviceGetCount w) - 1]"
  shows "snd (nvmlProcessPIDs w) = Inr []"
proof -
  obtain lg where "nvmlDevices w [0..fst (nvml_DeviceGetCount w) - 1] {} = (lg, Inr {})"
    using nvmlDevices_refused [OF assms(3), of "{}"]
    by (cases "nvmlDevices w [0..fst (nvml_DeviceGetCount w) - 1] {}") auto
  with assms(1,2) show ?thesis
    by (simp add: nvmlProcessPIDs_def Let_def)
qed

text \<open>
  C1, as the code has it. When \<open>nvml.Init\<close> or, after a successful \<open>nvml.Init\<close>,
  \<open>nvml.DeviceGetCount\<close> answers one of uninitialized, library not found, driver not
  loaded, not supported, no permission or unknown, or when every device can be opened
  and each of its two process listings answers not supported, no permission or not
  found, \<open>Update\<close> sends no metric and returns \<open>nil\<close>; \<open>execute\<close> then logs at debug
  level only and sends the duration gauge and the success gauge with value 1 (not 0)
  for the collector. Nothing is logged at error level during the whole call.
\<close>

theorem Update_unavailable_reports_success:
  assumes "nvml_Init w \<in> {ERROR_UNINITIALIZED, ERROR_LIBRARY_NOT_FOUND, ERROR_DRIVER_NOT_LOADED,
                            ERROR_NOT_SUPPORTED, ERROR_NO_PERMISSION, ERROR_UNKNOWN}
           \<or> (nvml_Init w = SUCCESS
               \<and> snd (nvml_DeviceGetCount w) \<in>
                   {ERROR_UNINITIALIZED, ERROR_LIBRARY_NOT_FOUND, ERROR_DRIVER_NOT_LOADED,
                    ERROR_NOT_SUPPORTED, ERROR_NO_PERMISSION, ERROR_UNKNOWN})
           \<or> (nvml_Init w = SUCCESS \<and> snd (nvml_DeviceGetCount w) = SUCCESS
               \<and> list_all (\<lambda>i. snd (nvml_DeviceGetHandleByIndex w i) = SUCCESS
                    \<and> snd (GetComputeRunningProcesses (fst (nvml_DeviceGetHandleByIndex w i)))
                        \<in> {ERROR_NOT_SUPPORTED, ERROR_NO_PERMISSION, ERROR_NOT_FOUND}
                    \<and> snd (GetGraphicsRunningProcesses (fst (nvml_DeviceGetHandleByIndex w i)))
                        \<in> {ERROR_NOT_SUPPORTED, ERROR_NO_PERMISSION, ERROR_NOT_FOUND})
                   [0..fst (nvml_DeviceGetCount w) - 1])"
    and "ValidString name"
  shows "metrics_of (fst (Update c w)) = []
         \<and> fst (snd (Update c w)) = Returned None
         \<and> execute name (asCollector (Update c w)) duration =
             Some (fst (Update c w) @
                   [Logged Debug ''collector succeeded'',
                    Sent \<lparr>metricDesc = scrapeDurationDesc, gaugeValue = duration,
                          labelValues = [name]\<rparr>,
                    Sent \<lparr>metricDesc = scrapeSuccessDesc, gaugeValue = 1,
                          labelValues = [name]\<rparr>])
         \<and> successValues (the (execute name (asCollector (Update c w)) duration)) = [1]
         \<and> list_all (\<lambda>l. fst l \<noteq> Error)
               (logs_of (the (execute name (asCollector (Update c w)) duration)))"
proof -
  have quiet: "metrics_of (fst (Update c w)) = [] \<and> fst (snd (Update c w)) = Returned None
               \<and> list_all (\<lambda>l. fst l \<noteq> Error) (logs_of (fst (Update c w)))"
  proof (cases "snd (nvmlProcessPIDs w)")
    case (Inl err)
    with assms(1) have u: "errors_Is err errGPUProcessInfoUnavailable"
      using listing_unavailable_iff [of w] listing_refused [of w]
      by (auto simp: errors_Is_wrapNVML)
    show ?thesis
      by (simp add: Update_unavailable [OF Inl u] metrics_of_append metrics_of_hostNameOrDefault
          metrics_of_nvmlProcessPIDs logs_of_append levels_hostNameOrDefault
          levels_nvmlProcessPIDs)
  next
    case (Inr pids)
    with assms(1) have "pids = []"
      using listing_unavailable_iff [of w] listing_refused [of w]
      by (auto simp: errors_Is_wrapNVML)
    with Inr show ?thesis
      by (simp add: Update_no_pids metrics_of_append metrics_of_hostNameOrDefault
          metrics_of_nvmlProcessPIDs logs_of_append levels_hostNameOrDefault
          levels_nvmlProcessPIDs)
  qed
  then have m: "metrics_of (fst (Update c w)) = []"
    and r: "snd (asCollector (Update c w)) = Returned None"
    and lv: "list_all (\<lambda>l. fst l \<noteq> Error) (logs_of (fst (Update c w)))"
    by (simp_all add: asCollector_def)
  have e: "execute name (asCollector (Update c w)) duration =
             Some (fst (Update c w) @
                   [Logged Debug ''collector succeeded'',
                    Sent \<lparr>metricDesc = scrapeDurationDesc, gaugeValue = duration,
                          labelValues = [name]\<rparr>,
                    Sent \<lparr>metricDesc = scrapeSuccessDesc, gaugeValue = 1,
                          labelValues = [name]\<rparr>])"
    using execute_returned_nil [OF assms(2) r, of duration] by (simp add: asCollector_def)
  show ?thesis
    using quiet m e lv meta_descs_differ
    by (simp add: successValues_def metrics_of_append logs_of_append)
qed

theorem Update_unavailable_reports_success_witness:
  "ValidString ''gpu_process''
   \<and> snd (nvml_DeviceGetCount w_not_supported) = ERROR_NOT_SUPPORTED
   \<and> metrics_of (fst (Update c_100 w_not_supported)) = []
   \<and> fst (snd (Update c_100 w_not_supported)) = Returned None
   \<and> successValues (the (execute ''gpu_process'' (asCollector (Update c_100 w_not_supported)) (1/100)))
       = [1]
   \<and> metrics_of (fst (Update c_100 w_lists_refused)) = []
   \<and> fst (snd (Update c_100 w_lists_refused)) = Returned None
   \<and> successValues (the (execute ''gpu_process'' (asCollector (Update c_100 w_lists_refused)) (1/100)))
       = [1]"
proof -
  have a: "nvml_Init w_not_supported \<in>
             {ERROR_UNINITIALIZED, ERROR_LIBRARY_NOT_FOUND, ERROR_DRIVER_NOT_LOADED,
              ERROR_NOT_SUPPORTED, ERROR_NO_PERMISSION, ERROR_UNKNOWN}
           \<or> (nvml_Init w_not_supported = SUCCESS
               \<and> snd (nvml_DeviceGetCount w_not_supported) \<in>
                   {ERROR_UNINITIALIZED, ERROR_LIBRARY_NOT_FOUND, ERROR_DRIVER_NOT_LOADED,
                    ERROR_NOT_SUPPORTED, ERROR_NO_PERMISSION, ERROR_UNKNOWN})
           \<or> (nvml_Init w_not_supported = SUCCESS
               \<and> snd (nvml_DeviceGetCount w_not_supported) = SUCCESS
               \<and> list_all (\<lambda>i. snd (nvml_DeviceGetHandleByIndex w_not_supported i) = SUCCESS
                    \<and> snd (GetComputeRunningProcesses (fst (nvml_DeviceGetHandleByIndex w_not_supported i)))
                        \<in> {ERROR_NOT_SUPPORTED, ERROR_NO_PERMISSION, ERROR_NOT_FOUND}
                    \<and> snd (GetGraphicsRunningProcesses (fst (nvml_DeviceGetHandleByIndex w_not_supported i)))
                        \<in> {ERROR_NOT_SUPPORTED, ERROR_NO_PERMISSION, ERROR_NOT_FOUND})
                   [0..fst (nvml_DeviceGetCount w_not_supported) - 1])"
    by (simp add: w_not_supported_def w_base_def)
  have b: "nvml_Init w_lists_refused \<in>
             {ERROR_UNINITIALIZED, ERROR_LIBRARY_NOT_FOUND, ERROR_DRIVER_NOT_LOADED,
              ERROR_NOT_SUPPORTED, ERROR_NO_PERMISSION, ERROR_UNKNOWN}
           \<or> (nvml_Init w_lists_refused = SUCCESS
               \<and> snd (nvml_DeviceGetCount w_lists_refused) \<in>
                   {ERROR_UNINITIALIZED, ERROR_LIBRARY_NOT_FOUND, ERROR_DRIVER_NOT_LOADED,
                    ERROR_NOT_SUPPORTED, ERROR_NO_PERMISSION, ERROR_UNKNOWN})
           \<or> (nvml_Init w_lists_refused = SUCCESS
               \<and> snd (nvml_DeviceGetCount w_lists_refused) = SUCCESS
               \<and> list_all (\<lambda>i. snd (nvml_DeviceGetHandleByIndex w_lists_refused i) = SUCCESS
                    \<and> snd (GetComputeRunningProcesses (fst (nvml_DeviceGetHandleByIndex w_lists_refused i)))
                        \<in> {ERROR_NOT_SUPPORTED, ERROR_NO_PERMISSION, ERROR_NOT_FOUND}
                    \<and> snd (GetGraphicsRunningProcesses (fst (nvml_DeviceGetHandleByIndex w_lists_refused i)))
                        \<in> {ERROR_NOT_SUPPORTED, ERROR_NO_PERMISSION, ERROR_NOT_FOUND})
                   [0..fst (nvml_DeviceGetCount w_lists_refused) - 1])"
    by (simp add: w_lists_refused_def w_base_def upto_0_0)
  have v: "ValidString ''gpu_process''"
    by (simp add: ValidString_ascii)
  have n: "snd (nvml_DeviceGetCount w_not_supported) = ERROR_NOT_SUPPORTED"
    by (simp add: w_not_supported_def)
  show ?thesis
    using v n Update_unavailable_reports_success [OF a v, of c_100 "1/100"]
      Update_unavailable_reports_success [OF b v, of c_100 "1/100"]
    by blast
qed

text \<open>
  The claim C1 as stated fails: with device counting answering "not supported", the
  success gauge that \<open>execute\<close> sends for the process collector is 1, not 0.
\<close>

theorem Update_not_supported_success_counterexample:
  "snd (nvml_DeviceGetCount w_not_supported) = ERROR_NOT_SUPPORTED
   \<and> fst (snd (Update c_100 w_not_supported)) = Returned None
   \<and> successValues (the (execute ''gpu_process'' (asCollector (Update c_100 w_not_supported)) (1/100)))
       = [1]
   \<and> successValues (the (execute ''gpu_process'' (asCollector (Update c_100 w_not_supported)) (1/100)))
       \<noteq> [0]"
proof -
  have l: "snd (nvmlProcessPIDs w_not_supported) =
             Inl (Wrap ''nvml device count: gpu process list unavailable (nvml error)''
                    errGPUProcessInfoUnavailable)"
    by (simp add: pids_not_supported)
  have u: "errors_Is (Wrap ''nvml device count: gpu process list unavailable (nvml error)''
                        errGPUProcessInfoUnavailable) errGPUProcessInfoUnavailable"
    by simp
  have upd: "Update c_100 w_not_supported =
           (fst (hostNameOrDefault True w_not_supported) @ fst (nvmlProcessPIDs w_not_supported)
              @ [Logged Debug ''gpu process listing unavailable''], Returned None, c_100)"
    by (rule Update_unavailable [OF l u])
  have h: "hostNameOrDefault True w_not_supported = ([], ''gpu-host'')"
    by (simp add: hostNameOrDefault_def w_not_supported_def w_base_def)
  have v: "ValidString ''gpu_process''"
    by (simp add: ValidString_ascii)
  have r: "snd (asCollector (Update c_100 w_not_supported)) = Returned None"
    by (simp add: upd asCollector_def)
  have c1: "snd (nvml_DeviceGetCount w_not_supported) = ERROR_NOT_SUPPORTED"
    by (simp add: w_not_supported_def)
  have c2: "fst (snd (Update c_100 w_not_supported)) = Returned None"
    by (simp add: upd)
  have c3: "successValues
              (the (execute ''gpu_process'' (asCollector (Update c_100 w_not_supported)) (1/100)))
            = [1]"
    using meta_descs_differ
    by (simp add: execute_returned_nil v upd h pids_not_supported asCollector_def
        successValues_def)
  show ?thesis
    using c1 c2 c3 by simp
qed

section \<open>The host identifier\<close>

text \<open>
  C8. What \<open>hostNameOrDefault\<close> does where the claim and the code part: the hostname
  lookup fails while \<open>NODE_NAME\<close> is set to \<open>node-1\<close>. The function answers \<open>unknown\<close>,
  not \<open>node-1\<close>: the early return on the lookup error comes before the variable is read.
\<close>

theorem hostNameOrDefault_hostname_failure:
  "os_Getenv w_nohost ''NODE_NAME'' = ''node-1''
   \<and> os_Hostname w_nohost = Inl (ErrorString ''hostname unavailable'')
   \<and> hostNameOrDefault True w_nohost = ([Logged Warn ''failed to determine hostname''], ''unknown'')
   \<and> snd (hostNameOrDefault True w_nohost) \<noteq> ''node-1''"
  by (simp add: hostNameOrDefault_def w_nohost_def)

text \<open>
  In the other cases the order of the claim holds: with a readable hostname,
  \<open>NODE_NAME\<close> wins when it is not empty, and the hostname is used otherwise.
\<close>

lemma hostNameOrDefault_hostname_readable:
  "os_Hostname w = Inr hostname \<Longrightarrow>
     snd (hostNameOrDefault l w) =
       (if os_Getenv w ''NODE_NAME'' \<noteq> [] then os_Getenv w ''NODE_NAME'' else hostname)"
  by (simp add: hostNameOrDefault_def Let_def)

section \<open>Cycles without GPU processes\<close>

lemma process_descs_differ:
  "processGPUMem \<noteq> processCPU" "processMem \<noteq> processCPU" "processGPUMem \<noteq> processMem"
  by (simp_all add: processGPUMem_def processCPU_def processMem_def BuildFQName_def
      namespace_def GPUProcessSubsystem_def)

lemma emitInfo_cpu:
  "m \<in> set (metrics_of (fst (emitInfo w h meta cpu mem info))) \<Longrightarrow> metricDesc m = processCPU
     \<Longrightarrow> gaugeValue m = cpu"
  using process_descs_differ
  by (auto simp: emitInfo_def Let_def andThen_def send_def MustNewConstMetric_def
      split: if_splits option.splits)

lemma emitInfos_cpu:
  "m \<in> set (metrics_of (fst (emitInfos w h meta cpu mem infos))) \<Longrightarrow> metricDesc m = processCPU
     \<Longrightarrow> gaugeValue m = cpu"
proof (induction infos)
  case Nil
  then show ?case by simp
next
  case (Cons info infos)
  then show ?case
    by (auto simp: andThen_def metrics_of_append split: if_splits dest: emitInfo_cpu)
qed

lemma processCPUPercent_invalid:
  "fst (processCPUPercent c pid secs d False n) = 0"
  by (simp add: processCPUPercent_def Let_def split: option.splits)

lemma updatePid_cpu_zero:
  "m \<in> set (metrics_of (fst (updatePid w h d False n c pid))) \<Longrightarrow> metricDesc m = processCPU
     \<Longrightarrow> gaugeValue m = 0"
  by (auto simp: updatePid_def Let_def processCPUPercent_invalid simp del: emitInfos.simps
      split: sum.splits list.splits if_splits prod.splits dest: emitInfos_cpu)

lemma updatePids_cpu_zero:
  "m \<in> set (metrics_of (fst (updatePids w h d False n pids c))) \<Longrightarrow> metricDesc m = processCPU
     \<Longrightarrow> gaugeValue m = 0"
proof (induction pids arbitrary: c)
  case Nil
  then show ?case by simp
next
  case (Cons pid pids)
  obtain evs ok c1 where s: "updatePid w h d False n c pid = (evs, ok, c1)"
    by (cases "updatePid w h d False n c pid") auto
  obtain tr ok' c2 where r: "updatePids w h d False n pids c1 = (tr, ok', c2)"
    by (cases "updatePids w h d False n pids c1") auto
  from Cons.prems(1) s r have "m \<in> set (metrics_of evs) \<or> m \<in> set (metrics_of tr)"
    by (auto simp: metrics_of_append split: if_splits)
  then show ?case
  proof
    assume "m \<in> set (metrics_of evs)"
    then show ?thesis
      using updatePid_cpu_zero [of m w h d n c pid] s Cons.prems(2) by simp
  next
    assume "m \<in> set (metrics_of tr)"
    then show ?thesis
      using Cons.IH [of c1] r Cons.prems(2) by simp
  qed
qed

lemma Update_cpu_zero_uninitialized:
  assumes "\<not> initialized (systemSample c)"
    and "m \<in> set (metrics_of (fst (Update c w)))" and "metricDesc m = processCPU"
  shows "gaugeValue m = 0"
proof -
  have inv: "snd (fst (updateSystemSample c t)) = False" for t
    using assms(1) by (simp add: updateSystemSample_def)
  have pre: "metrics_of (fst (hostNameOrDefault True w) @ fst (nvmlProcessPIDs w)) = []"
    by (simp add: metrics_of_append metrics_of_hostNameOrDefault metrics_of_nvmlProcessPIDs)
  have loop: "gaugeValue m = 0"
    if "updatePids w h d False n pids c1 = (tr, ok, c2)" and "m \<in> set (metrics_of tr)"
    for h d n pids c1 tr ok c2
    using updatePids_cpu_zero [of m w h d n pids c1] that assms(3) by simp
  show ?thesis
    using assms(2) pre
    by (auto simp: Update_def Let_def metrics_of_append inv
        split: sum.splits if_splits option.splits prod.splits dest: loop)
qed


lemma pids_idle: "nvmlProcessPIDs w_idle = ([], Inr [])"
  by (simp add: nvmlProcessPIDs_def w_idle_def w_base_sel Let_def upto_0_0 addNVMLProcessInfo_def)

lemma Update_base_fresh:
  assumes "cpuSamples c = Map.empty"
  shows "map gaugeValue (filter (\<lambda>m. metricDesc m = processCPU) (metrics_of (fst (Update c w_base))))
           = [0]
         \<and> cpuSamples (snd (snd (Update c w_base))) = [42 \<mapsto> \<lparr>cpuSeconds = 3\<rparr>]"
  using assms process_descs_differ
  by (simp add: Update_def pids_base host_base total_base Let_def updatePid_def collect_base
      emit_base updateSystemSample_def processCPUPercent_def pruneCPUSamples_def
      fun_eq_iff w_base_sel andThen_def)

text \<open>
  C5. When the listing succeeds with no GPU process, \<open>Update\<close> returns \<open>nil\<close>, sends no
  metric, and leaves the collector with an empty per-pid sample map and the zero
  (uninitialized) system sample. Consequently, whatever the next cycle finds, every
  CPU percentage it sends is 0: nothing is computed against a baseline from before
  the gap.
\<close>

theorem Update_no_processes_resets:
  assumes "snd (nvmlProcessPIDs w) = Inr []"
  shows "fst (snd (Update c w)) = Returned None
         \<and> metrics_of (fst (Update c w)) = []
         \<and> cpuSamples (snd (snd (Update c w))) = Map.empty
         \<and> systemSample (snd (snd (Update c w))) = systemCPUSample_zero
         \<and> (\<forall>w'. \<forall>m \<in> set (metrics_of (fst (Update (snd (snd (Update c w))) w'))).
               metricDesc m = processCPU \<longrightarrow> gaugeValue m = 0)"
proof -
  have upd: "Update c w =
     (fst (hostNameOrDefault True w) @ fst (nvmlProcessPIDs w)
        @ [Logged Debug ''no gpu processes reported''], Returned None, resetCPUSamples c)"
    by (rule Update_no_pids [OF assms])
  have un: "\<not> initialized (systemSample (resetCPUSamples c))"
    by (simp add: resetCPUSamples_def systemCPUSample_zero_def)
  show ?thesis
    using Update_cpu_zero_uninitialized [OF un]
    by (simp add: upd metrics_of_append metrics_of_hostNameOrDefault metrics_of_nvmlProcessPIDs
        resetCPUSamples_def)
qed

theorem Update_no_processes_resets_witness:
  "snd (nvmlProcessPIDs w_idle) = Inr []
   \<and> fst (snd (Update c_100 w_idle)) = Returned None
   \<and> cpuSamples (snd (snd (Update c_100 w_idle))) = Map.empty
   \<and> systemSample (snd (snd (Update c_100 w_idle))) = \<lparr>totalSeconds = 0, initialized = False\<rparr>
   \<and> map gaugeValue (filter (\<lambda>m. metricDesc m = processCPU)
         (metrics_of (fst (Update (snd (snd (Update c_100 w_idle))) w_base)))) = [0]"
proof -
  have l: "snd (nvmlProcessPIDs w_idle) = Inr []"
    by (simp add: pids_idle)
  have e: "cpuSamples (snd (snd (Update c_100 w_idle))) = Map.empty"
    using Update_no_processes_resets [OF l, of c_100] by simp
  show ?thesis
    using l Update_no_processes_resets [OF l, of c_100] Update_base_fresh [OF e]
    by (simp add: systemCPUSample_zero_def)
qed

section \<open>The keys of the sample map after a cycle\<close>

lemma updateSystemSample_cpuSamples:
  "cpuSamples (snd (updateSystemSample c t)) = cpuSamples c"
  by (simp add: updateSystemSample_def Let_def)

lemma processCPUPercent_state:
  "snd (processCPUPercent c pid secs d has n) =
     c\<lparr>cpuSamples := (cpuSamples c)(pid \<mapsto> \<lparr>cpuSeconds = secs\<rparr>)\<rparr>"
  by (simp add: processCPUPercent_def Let_def split: option.splits)

lemma updatePid_samples:
  "cpuSamples (snd (snd (updatePid w h d has n c pid))) =
     (case sampledSeconds w pid of
        None \<Rightarrow> cpuSamples c
      | Some s \<Rightarrow> (cpuSamples c)(pid \<mapsto> \<lparr>cpuSeconds = s\<rparr>))"
  by (simp add: updatePid_def sampledSeconds_def Let_def processCPUPercent_state
      split: sum.splits list.splits prod.splits)

lemma updatePids_completed_samples:
  "fst (snd (updatePids w h d has n pids c)) \<Longrightarrow>
   cpuSamples (snd (snd (updatePids w h d has n pids c))) p =
     (if p \<in> set pids
      then (case sampledSeconds w p of
              None \<Rightarrow> cpuSamples c p
            | Some s \<Rightarrow> Some \<lparr>cpuSeconds = s\<rparr>)
      else cpuSamples c p)"
proof (induction pids arbitrary: c)
  case Nil
  then show ?case by simp
next
  case (Cons pid pids)
  obtain evs ok c1 where s: "updatePid w h d has n c pid = (evs, ok, c1)"
    by (cases "updatePid w h d has n c pid") auto
  obtain tr ok' c2 where r: "updatePids w h d has n pids c1 = (tr, ok', c2)"
    by (cases "updatePids w h d has n pids c1") auto
  from Cons.prems s r have ok: "ok" and ok': "ok'"
    by (auto split: if_splits)
  have c1: "cpuSamples c1 =
     (case sampledSeconds w pid of
        None \<Rightarrow> cpuSamples c
      | Some s \<Rightarrow> (cpuSamples c)(pid \<mapsto> \<lparr>cpuSeconds = s\<rparr>))"
    using updatePid_samples [of w h d has n c pid] s by simp
  have c2: "cpuSamples c2 p =
     (if p \<in> set pids
      then (case sampledSeconds w p of
              None \<Rightarrow> cpuSamples c1 p
            | Some s \<Rightarrow> Some \<lparr>cpuSeconds = s\<rparr>)
      else cpuSamples c1 p)"
    using Cons.IH [of c1] r ok' by simp
  have res: "cpuSamples (snd (snd (updatePids w h d has n (pid # pids) c))) p = cpuSamples c2 p"
    using s r ok by simp
  show ?case
    unfolding res c2 c1
    by (auto split: option.splits)
qed

lemma pruneCPUSamples_lookup:
  "cpuSamples (pruneCPUSamples c active) p = (if p \<in> set active then cpuSamples c p else None)"
  by (simp add: pruneCPUSamples_def)

lemma Update_returned_nil_cycle:
  assumes "snd (nvmlProcessPIDs w) = Inr pids" and "pids \<noteq> []"
    and "fst (snd (Update c w)) = Returned None"
  shows "\<exists>t h d has.
           fst (snd (updatePids w h d has (runtime_NumCPU w) pids (snd (updateSystemSample c t))))
           \<and> snd (snd (Update c w)) =
               pruneCPUSamples
                 (snd (snd (updatePids w h d has (runtime_NumCPU w) pids (snd (updateSystemSample c t)))))
                 pids"
proof -
  from assms obtain t where t: "readTotalCPUSeconds w = Inr t"
    by (cases "readTotalCPUSeconds w") (auto simp: Update_def Let_def)
  from assms t have i: "dcgm_Init w = None"
    by (cases "dcgm_Init w") (auto simp: Update_def Let_def)
  from assms t i have g: "dcgm_WatchPidFields w = None"
    by (cases "dcgm_WatchPidFields w") (auto simp: Update_def Let_def)
  let ?r = "updatePids w (snd (hostNameOrDefault True w)) (fst (fst (updateSystemSample c t)))
              (snd (fst (updateSystemSample c t))) (runtime_NumCPU w) pids
              (snd (updateSystemSample c t))"
  obtain tr ok c2 where r: "?r = (tr, ok, c2)"
    by (cases ?r) auto
  from assms t i g r have ok: "ok"
    by (cases ok) (auto simp: Update_def Let_def)
  from assms t i g r ok have "snd (snd (Update c w)) = pruneCPUSamples c2 pids"
    by (simp add: Update_def Let_def)
  with r ok show ?thesis
    by (metis fst_conv snd_conv)
qed

text \<open>
  C4, as the code has it. After a cycle in which the listing succeeds and \<open>Update\<close>
  returns \<open>nil\<close>, every key of the per-pid sample map is a pid of the cycle's active set,
  so no pid absent from the active set remains. A pid of the active set whose DCGM
  record and host process information were read has the CPU-seconds just read as its
  sample; a pid of the active set that was skipped has the sample it had before the
  cycle, or none.
\<close>

theorem Update_sample_keys:
  assumes "snd (nvmlProcessPIDs w) = Inr pids" and "fst (snd (Update c w)) = Returned None"
  shows "dom (cpuSamples (snd (snd (Update c w)))) \<subseteq> set pids
         \<and> (\<forall>pid \<in> set pids.
               cpuSamples (snd (snd (Update c w))) pid =
                 (case sampledSeconds w pid of
                    Some s \<Rightarrow> Some \<lparr>cpuSeconds = s\<rparr>
                  | None \<Rightarrow> cpuSamples c pid))"
proof (cases "pids = []")
  case True
  with assms(1) show ?thesis
    by (simp add: Update_no_pids resetCPUSamples_def)
next
  case False
  from Update_returned_nil_cycle [OF assms(1) False assms(2)]
  obtain t h d has where ok:
      "fst (snd (updatePids w h d has (runtime_NumCPU w) pids (snd (updateSystemSample c t))))"
    and st: "snd (snd (Update c w)) =
               pruneCPUSamples
                 (snd (snd (updatePids w h d has (runtime_NumCPU w) pids (snd (updateSystemSample c t)))))
                 pids"
    by blast
  have look: "cpuSamples (snd (snd (Update c w))) p =
     (if p \<in> set pids
      then (case sampledSeconds w p of
              None \<Rightarrow> cpuSamples c p
            | Some s \<Rightarrow> Some \<lparr>cpuSeconds = s\<rparr>)
      else None)" for p
    by (simp add: st pruneCPUSamples_lookup updatePids_completed_samples [OF ok]
        updateSystemSample_cpuSamples split: option.splits)
  show ?thesis
    by (auto simp: look dom_def split: if_splits option.splits)
qed


lemma pruneCPUSamples_map:
  "cpuSamples (pruneCPUSamples c active) =
     (\<lambda>p. if p \<in> set active then cpuSamples c p else None)"
  by (rule ext) (simp add: pruneCPUSamples_lookup)

lemma Update_base_state:
  "fst (snd (Update c w_base)) = Returned None
   \<and> cpuSamples (snd (snd (Update c w_base))) = [42 \<mapsto> \<lparr>cpuSeconds = 3\<rparr>]"
  by (simp add: Update_def pids_base host_base total_base Let_def updatePid_def collect_base
      emit_base processCPUPercent_state pruneCPUSamples_map fun_eq_iff w_base_sel andThen_def)

lemma sampled_base: "sampledSeconds w_base 42 = Some 3"
  by (simp add: sampledSeconds_def w_base_sel collect_base)

theorem Update_sample_keys_witness:
  "snd (nvmlProcessPIDs w_base) = Inr [42]
   \<and> fst (snd (Update c_two w_base)) = Returned None
   \<and> cpuSamples c_two 7 = Some \<lparr>cpuSeconds = 5\<rparr>
   \<and> cpuSamples (snd (snd (Update c_two w_base))) 7 = None
   \<and> cpuSamples (snd (snd (Update c_two w_base))) 42 = Some \<lparr>cpuSeconds = 3\<rparr>"
proof -
  have l: "snd (nvmlProcessPIDs w_base) = Inr [42]"
    by (simp add: pids_base)
  have r: "fst (snd (Update c_two w_base)) = Returned None"
    by (simp add: Update_base_state)
  have k: "dom (cpuSamples (snd (snd (Update c_two w_base)))) \<subseteq> set [42]"
    and v: "\<forall>pid \<in> set [42]. cpuSamples (snd (snd (Update c_two w_base))) pid =
                 (case sampledSeconds w_base pid of
                    Some s \<Rightarrow> Some \<lparr>cpuSeconds = s\<rparr>
                  | None \<Rightarrow> cpuSamples c_two pid)"
    using Update_sample_keys [OF l r] by blast+
  have "7 \<notin> dom (cpuSamples (snd (snd (Update c_two w_base))))"
    using k by auto
  then have "cpuSamples (snd (snd (Update c_two w_base))) 7 = None"
    by (simp add: dom_def)
  then show ?thesis
    using l r v by (simp add: sampled_base c_two_def)
qed

lemma pids_gone:
  "nvmlProcessPIDs w_gone = ([Logged Debug ''nvml process info unavailable''], Inr [42])"
  by (simp add: nvmlProcessPIDs_def w_gone_def w_base_sel Let_def upto_0_0 addNVMLProcessInfo_def
      dev_python_def)

text \<open>
  The claim C4 as stated fails: pid 42 is in the active set, its host process can no
  longer be opened, the cycle completes with \<open>nil\<close>, and the sample map has no key 42.
\<close>

theorem Update_skipped_pid_counterexample:
  "snd (nvmlProcessPIDs w_gone) = Inr [42]
   \<and> fst (snd (Update NewGPUProcessCollector w_gone)) = Returned None
   \<and> cpuSamples (snd (snd (Update NewGPUProcessCollector w_gone))) 42 = None
   \<and> dom (cpuSamples (snd (snd (Update NewGPUProcessCollector w_gone)))) \<noteq> set [42]"
proof -
  have c: "collectProcessInfo w_gone pid n = Inl (ErrorString ''process does not exist'')" for pid n
    by (simp add: collectProcessInfo_def w_gone_def)
  have t: "readTotalCPUSeconds w_gone = Inr 110"
    by (simp add: readTotalCPUSeconds_def w_gone_def w_base_sel)
  have g: "dcgm_Init w_gone = None" "dcgm_WatchPidFields w_gone = None"
    "dcgm_DestroyGroup w_gone = None" "runtime_NumCPU w_gone = 8"
    "dcgm_GetProcessInfo w_gone pid =
       Inr [\<lparr>info_GPU = 0, info_PID = pid, info_Name = ''python'', Memory_GlobalUsed = 1024\<rparr>]"
    for pid
    by (simp_all add: w_gone_def w_base_sel)
  have u: "fst (snd (Update NewGPUProcessCollector w_gone)) = Returned None
           \<and> cpuSamples (snd (snd (Update NewGPUProcessCollector w_gone))) = Map.empty"
    by (simp add: Update_def pids_gone t Let_def updatePid_def c g updateSystemSample_def
        pruneCPUSamples_def NewGPUProcessCollector_def systemCPUSample_zero_def)
  show ?thesis
    using u by (simp add: pids_gone)
qed

section \<open>A collector without samples\<close>

text \<open>
  The pids of a cycle are distinct, so each is looked up once. When the collector holds
  no sample at all, as after a reset, every pid is therefore met without a prior sample
  and every CPU percentage of the cycle is 0, whether or not the system sample is
  initialized.
\<close>

lemma processCPUPercent_fresh:
  "cpuSamples c pid = None \<Longrightarrow> fst (processCPUPercent c pid secs d has n) = 0"
  by (simp add: processCPUPercent_def Let_def)

lemma updatePid_cpu_zero_fresh:
  "cpuSamples c pid = None \<Longrightarrow> m \<in> set (metrics_of (fst (updatePid w h d has n c pid)))
     \<Longrightarrow> metricDesc m = processCPU \<Longrightarrow> gaugeValue m = 0"
  by (auto simp: updatePid_def Let_def processCPUPercent_fresh simp del: emitInfos.simps
      split: sum.splits list.splits if_splits prod.splits dest: emitInfos_cpu)

lemma updatePids_cpu_zero_fresh:
  assumes "distinct pids" and "list_all (\<lambda>p. cpuSamples c p = None) pids"
    and "m \<in> set (metrics_of (fst (updatePids w h d has n pids c)))"
    and "metricDesc m = processCPU"
  shows "gaugeValue m = 0"
  using assms(1,2,3)
proof (induction pids arbitrary: c)
  case Nil
  then show ?case by simp
next
  case (Cons pid pids)
  obtain evs ok c1 where s: "updatePid w h d has n c pid = (evs, ok, c1)"
    by (cases "updatePid w h d has n c pid") auto
  obtain tr ok' c2 where r: "updatePids w h d has n pids c1 = (tr, ok', c2)"
    by (cases "updatePids w h d has n pids c1") auto
  from Cons.prems(3) s r have "m \<in> set (metrics_of evs) \<or> m \<in> set (metrics_of tr)"
    by (auto simp: metrics_of_append split: if_splits)
  then show ?case
  proof
    assume "m \<in> set (metrics_of evs)"
    moreover from Cons.prems(2) have "cpuSamples c pid = None" by simp
    ultimately show ?thesis
      using updatePid_cpu_zero_fresh [of c pid m w h d has n] s assms(4) by simp
  next
    assume t: "m \<in> set (metrics_of tr)"
    have "cpuSamples c1 p = None" if "p \<in> set pids" for p
    proof -
      from that Cons.prems(1) have "p \<noteq> pid" by auto
      moreover from that Cons.prems(2) have "cpuSamples c p = None"
        by (simp add: list_all_iff)
      ultimately show ?thesis
        using updatePid_samples [of w h d has n c pid] s by (simp split: option.splits)
    qed
    then have "list_all (\<lambda>p. cpuSamples c1 p = None) pids"
      by (simp add: list_all_iff)
    with Cons.IH [of c1] Cons.prems(1) r t show ?thesis by simp
  qed
qed

lemma nvmlProcessPIDs_distinct: "snd (nvmlProcessPIDs w) = Inr pids \<Longrightarrow> distinct pids"
  by (auto simp: nvmlProcessPIDs_def Let_def split: if_splits prod.splits sum.splits)

lemma Update_cpu_zero_no_samples:
  assumes "cpuSamples c = Map.empty"
    and "m \<in> set (metrics_of (fst (Update c w)))" and "metricDesc m = processCPU"
  shows "gaugeValue m = 0"
proof (cases "snd (nvmlProcessPIDs w)")
  case (Inl err)
  with assms(2) show ?thesis
    by (simp add: Update_listing_error metrics_of_append metrics_of_hostNameOrDefault
        metrics_of_nvmlProcessPIDs split: if_splits)
next
  case (Inr pids)
  note d = nvmlProcessPIDs_distinct [OF Inr]
  have fresh: "list_all (\<lambda>p. cpuSamples (snd (updateSystemSample c t)) p = None) pids" for t
    using assms(1) by (simp add: updateSystemSample_cpuSamples list_all_iff)
  have pre: "metrics_of (fst (hostNameOrDefault True w) @ fst (nvmlProcessPIDs w)) = []"
    by (simp add: metrics_of_append metrics_of_hostNameOrDefault metrics_of_nvmlProcessPIDs)
  have loop: "gaugeValue m = 0"
    if "updatePids w h dl has n pids (snd (updateSystemSample c t)) = (tr, ok, c2)"
      and "m \<in> set (metrics_of tr)"
    for h dl has n t tr ok c2
    using updatePids_cpu_zero_fresh [OF d fresh, of m w h dl has n t] that assms(3) by simp
  show ?thesis
    using assms(2) pre Inr
    by (auto simp: Update_def Let_def metrics_of_append
        split: sum.splits if_splits option.splits prod.splits dest: loop)
qed

section \<open>The meta-metrics of a scrape\<close>

lemma concat_update_mset:
  "i < length xss \<Longrightarrow> xss ! i = x # xs \<Longrightarrow>
     mset (concat xss) = add_mset x (mset (concat (xss[i := xs])))"
proof (induction xss arbitrary: i)
  case Nil
  then show ?case by simp
next
  case (Cons ys yss)
  show ?case
  proof (cases i)
    case 0
    with Cons.prems show ?thesis by simp
  next
    case (Suc j)
    with Cons.prems Cons.IH [of j] show ?thesis by simp
  qed
qed

lemma interleave_mset: "interleave xss ys \<Longrightarrow> mset ys = mset (concat xss)"
proof (induction rule: interleave.induct)
  case (finished xss)
  then show ?case by simp
next
  case (step i xss x xs ys)
  then show ?case by (simp add: concat_update_mset)
qed

lemma interleave_idle_first: "interleave xss ys \<Longrightarrow> interleave ([] # xss) ys"
proof (induction rule: interleave.induct)
  case (finished xss)
  then show ?case by (simp add: interleave.finished)
next
  case (step i xss x xs ys)
  have "Suc i < length ([] # xss)" using step.hyps(1) by simp
  moreover have "([] # xss) ! Suc i = x # xs" using step.hyps(2) by simp
  moreover have "interleave (([] # xss)[Suc i := xs]) ys" using step.IH by simp
  ultimately show ?case by (rule interleave.step)
qed

lemma interleave_run_first: "interleave xss ys \<Longrightarrow> interleave (zs # xss) (zs @ ys)"
proof (induction zs)
  case Nil
  then show ?case by (simp add: interleave_idle_first)
next
  case (Cons z zs)
  have "0 < length ((z # zs) # xss)" by simp
  moreover have "((z # zs) # xss) ! 0 = z # zs" by simp
  moreover have "interleave (((z # zs) # xss)[0 := zs]) (zs @ ys)" using Cons by simp
  ultimately have "interleave ((z # zs) # xss) (z # (zs @ ys))" by (rule interleave.step)
  then show ?case by simp
qed

lemma interleave_concat: "interleave xss (concat xss)"
proof (induction xss)
  case Nil
  show ?case by (simp add: interleave.finished)
next
  case (Cons zs xss)
  then show ?case by (simp add: interleave_run_first)
qed

lemma metrics_of_filter:
  "metrics_of evs =
     map (\<lambda>e. case e of Sent m \<Rightarrow> m | Logged l msg \<Rightarrow> undefined)
       (filter (\<lambda>e. case e of Sent m \<Rightarrow> True | Logged l msg \<Rightarrow> False) evs)"
  by (induction evs rule: metrics_of.induct) auto

lemma metrics_of_mset: "mset evs = mset evs' \<Longrightarrow> mset (metrics_of evs) = mset (metrics_of evs')"
proof -
  assume a: "mset evs = mset evs'"
  have "mset (metrics_of es) =
          image_mset (\<lambda>e. case e of Sent m \<Rightarrow> m | Logged l msg \<Rightarrow> undefined)
            (filter_mset (\<lambda>e. case e of Sent m \<Rightarrow> True | Logged l msg \<Rightarrow> False) (mset es))" for es
    by (simp add: metrics_of_filter)
  with a show ?thesis by simp
qed

lemma metrics_of_concat: "metrics_of (concat xss) = concat (map metrics_of xss)"
  by (induction xss) (auto simp: metrics_of_append)

lemma execute_returned:
  assumes "ValidString name" and "snd c \<noteq> Panicked"
  shows "\<exists>lg. execute name c seconds =
           Some (fst c @ [Logged lg (if snd c = Returned None then ''collector succeeded''
                                     else if snd c = Returned (Some ErrNoData)
                                       then ''collector returned no data''
                                     else ''collector failed''),
                          Sent (durationGauge name seconds),
                          Sent (successGauge name (snd c))])"
proof (cases "snd c")
  case (Returned err)
  with assms show ?thesis
    by (cases err)
       (auto simp: execute_def MustNewConstMetric_def scrapeDurationDesc_def scrapeSuccessDesc_def
          durationGauge_def successGauge_def IsNoDataError_def)
next
  case Panicked
  with assms show ?thesis by simp
qed

lemma execute_metrics:
  assumes "ValidString name" and "snd c \<noteq> Panicked"
  shows "execute name c seconds \<noteq> None
         \<and> metrics_of (the (execute name c seconds)) =
             metrics_of (fst c) @ [durationGauge name seconds, successGauge name (snd c)]"
  using execute_returned [OF assms, of seconds]
  by (auto simp: metrics_of_append)


lemma goroutines_metrics:
  assumes "list_all (\<lambda>nc. ValidString (fst nc) \<and> snd (snd nc) \<noteq> Panicked) cs"
  shows "filter (\<lambda>r. r = None) (goroutines elapsed cs) = []
         \<and> mset (metrics_of (concat (map the (goroutines elapsed cs)))) =
             (\<Sum>nc\<leftarrow>cs. mset (metrics_of (fst (snd nc)))
                        + {#durationGauge (fst nc) (elapsed (fst nc)),
                            successGauge (fst nc) (snd (snd nc))#})"
  using assms
proof (induction cs)
  case Nil
  show ?case by (simp add: goroutines_def)
next
  case (Cons nc cs)
  from Cons.prems have v: "ValidString (fst nc)" and p: "snd (snd nc) \<noteq> Panicked"
    and rest: "list_all (\<lambda>nc. ValidString (fst nc) \<and> snd (snd nc) \<noteq> Panicked) cs"
    by simp_all
  note e = execute_metrics [OF v p, of "elapsed (fst nc)"]
  note ih = Cons.IH [OF rest]
  have g: "goroutines elapsed (nc # cs) =
             execute (fst nc) (snd nc) (elapsed (fst nc)) # goroutines elapsed cs"
    by (simp add: goroutines_def)
  show ?case
    using e ih by (simp add: g metrics_of_append)
qed

lemma Collect_concat:
  assumes "list_all (\<lambda>nc. ValidString (fst nc) \<and> snd (snd nc) \<noteq> Panicked) cs"
  shows "NvidiaGPUCollector_Collect elapsed cs (concat (map the (goroutines elapsed cs)))"
  using goroutines_metrics [OF assms, of elapsed]
  by (simp add: NvidiaGPUCollector_Collect_def interleave_concat)

lemma Collect_mset:
  assumes "list_all (\<lambda>nc. ValidString (fst nc) \<and> snd (snd nc) \<noteq> Panicked) cs"
    and "NvidiaGPUCollector_Collect elapsed cs ch"
  shows "mset (metrics_of ch) =
           (\<Sum>nc\<leftarrow>cs. mset (metrics_of (fst (snd nc)))
                      + {#durationGauge (fst nc) (elapsed (fst nc)),
                          successGauge (fst nc) (snd (snd nc))#})"
proof -
  from assms(2) have "interleave (map the (goroutines elapsed cs)) ch"
    by (simp add: NvidiaGPUCollector_Collect_def)
  then have "mset ch = mset (concat (map the (goroutines elapsed cs)))"
    by (rule interleave_mset)
  then have "mset (metrics_of ch) = mset (metrics_of (concat (map the (goroutines elapsed cs))))"
    by (rule metrics_of_mset)
  with goroutines_metrics [OF assms(1), of elapsed] show ?thesis by simp
qed

lemma meta_filter_sum:
  assumes "distinct (map fst cs)" and "nc \<in> set cs"
    and "list_all (\<lambda>nc. list_all (\<lambda>m. metricDesc m \<noteq> d) (metrics_of (fst (snd nc)))) cs"
    and "\<And>nc'. metricDesc (g nc') = d \<and> labelValues (g nc') = [fst nc']"
    and "\<And>nc'. metricDesc (g' nc') \<noteq> d"
  shows "filter_mset (\<lambda>m. metricDesc m = d \<and> labelValues m = [fst nc])
           (\<Sum>nc'\<leftarrow>cs. mset (metrics_of (fst (snd nc'))) + {#g nc', g' nc'#}) = {#g nc#}"
  using assms(1,2,3)
proof (induction cs)
  case Nil
  then show ?case by simp
next
  case (Cons a cs)
  have own: "filter_mset (\<lambda>m. metricDesc m = d \<and> labelValues m = [fst nc])
               (mset (metrics_of (fst (snd a)))) = {#}"
    using Cons.prems(3) by (auto simp: list_all_iff)
  have none: "filter_mset (\<lambda>m. metricDesc m = d \<and> labelValues m = [fst nc])
               (\<Sum>nc'\<leftarrow>cs. mset (metrics_of (fst (snd nc'))) + {#g nc', g' nc'#}) = {#}"
    if "fst nc \<notin> fst ` set cs"
    using that Cons.prems(3) assms(4,5)
    by (induction cs) (auto simp: list_all_iff)
  show ?case
  proof (cases "nc = a")
    case True
    with Cons.prems(1) have "fst nc \<notin> fst ` set cs" by simp
    from none [OF this] own True assms(4,5) show ?thesis by simp
  next
    case False
    with Cons.prems have mem: "nc \<in> set cs" and dist: "distinct (map fst cs)"
      and na: "fst a \<noteq> fst nc"
      by (auto simp: image_iff)
    from Cons.prems(3) have rest:
      "list_all (\<lambda>nc. list_all (\<lambda>m. metricDesc m \<noteq> d) (metrics_of (fst (snd nc)))) cs"
      by simp
    from Cons.IH [OF dist mem rest] own na assms(4,5) show ?thesis by simp
  qed
qed


lemma own_metrics_sum:
  "nc \<in> set cs \<Longrightarrow> A nc \<subseteq># (\<Sum>nc'\<leftarrow>cs. A nc' + B nc')"
proof (induction cs)
  case Nil
  then show ?case by simp
next
  case (Cons a cs)
  show ?case
  proof (cases "nc = a")
    case True
    then show ?thesis by simp
  next
    case False
    with Cons have "A nc \<subseteq># (\<Sum>nc'\<leftarrow>cs. A nc' + B nc')" by simp
    then show ?thesis
      by (simp add: subset_mset.add_increasing)
  qed
qed

text \<open>
  C3. Take any collectors whose names are valid UTF-8 label values and whose \<open>Update\<close>
  returns, with \<open>nil\<close>, with the no-data error or with any other error. Then \<open>Collect\<close>
  completes, and whatever the interleaving of the goroutines, the metrics on the
  channel are, as a multiset, the metrics every collector sent plus one duration gauge
  and one success gauge per collector, the success gauge being 1 for \<open>nil\<close> and 0 for any
  error. So the metrics of each collector all arrive, whatever the other collectors
  did; and when the names are distinct (they are the keys of a map) and no collector
  sends a metric under one of the two meta descriptors itself, the channel holds
  exactly one duration gauge and exactly one success gauge labelled with each name.
\<close>

theorem Collect_meta_metrics:
  assumes "list_all (\<lambda>nc. ValidString (fst nc) \<and> snd (snd nc) \<noteq> Panicked) cs"
  shows "(\<exists>ch. NvidiaGPUCollector_Collect elapsed cs ch)
         \<and> (\<forall>ch. NvidiaGPUCollector_Collect elapsed cs ch \<longrightarrow>
               mset (metrics_of ch) =
                 (\<Sum>nc\<leftarrow>cs. mset (metrics_of (fst (snd nc)))
                            + {#durationGauge (fst nc) (elapsed (fst nc)),
                                successGauge (fst nc) (snd (snd nc))#})
               \<and> (\<forall>nc \<in> set cs. mset (metrics_of (fst (snd nc))) \<subseteq># mset (metrics_of ch))
               \<and> (distinct (map fst cs)
                  \<and> list_all (\<lambda>nc. list_all (\<lambda>m. metricDesc m \<noteq> scrapeDurationDesc
                                              \<and> metricDesc m \<noteq> scrapeSuccessDesc)
                                       (metrics_of (fst (snd nc)))) cs
                  \<longrightarrow> (\<forall>nc \<in> set cs.
                         filter (\<lambda>m. metricDesc m = scrapeDurationDesc \<and> labelValues m = [fst nc])
                           (metrics_of ch) = [durationGauge (fst nc) (elapsed (fst nc))]
                         \<and> filter (\<lambda>m. metricDesc m = scrapeSuccessDesc \<and> labelValues m = [fst nc])
                             (metrics_of ch) = [successGauge (fst nc) (snd (snd nc))])))"
proof (intro conjI allI impI ballI)
  show "\<exists>ch. NvidiaGPUCollector_Collect elapsed cs ch"
    using Collect_concat [OF assms] by blast
next
  fix ch assume "NvidiaGPUCollector_Collect elapsed cs ch"
  then show "mset (metrics_of ch) =
                 (\<Sum>nc\<leftarrow>cs. mset (metrics_of (fst (snd nc)))
                            + {#durationGauge (fst nc) (elapsed (fst nc)),
                                successGauge (fst nc) (snd (snd nc))#})"
    by (rule Collect_mset [OF assms])
next
  fix ch nc assume "NvidiaGPUCollector_Collect elapsed cs ch" and "nc \<in> set cs"
  then show "mset (metrics_of (fst (snd nc))) \<subseteq># mset (metrics_of ch)"
    using Collect_mset [OF assms, of elapsed ch]
      own_metrics_sum [of nc cs "\<lambda>nc. mset (metrics_of (fst (snd nc)))"
        "\<lambda>nc. {#durationGauge (fst nc) (elapsed (fst nc)), successGauge (fst nc) (snd (snd nc))#}"]
    by simp
next
  fix ch nc
  assume run: "NvidiaGPUCollector_Collect elapsed cs ch"
    and h: "distinct (map fst cs)
            \<and> list_all (\<lambda>nc. list_all (\<lambda>m. metricDesc m \<noteq> scrapeDurationDesc
                                        \<and> metricDesc m \<noteq> scrapeSuccessDesc)
                                 (metrics_of (fst (snd nc)))) cs"
    and mem: "nc \<in> set cs"
  from h have dist: "distinct (map fst cs)"
    and nd: "list_all (\<lambda>nc. list_all (\<lambda>m. metricDesc m \<noteq> scrapeDurationDesc)
                                 (metrics_of (fst (snd nc)))) cs"
    and ns: "list_all (\<lambda>nc. list_all (\<lambda>m. metricDesc m \<noteq> scrapeSuccessDesc)
                                 (metrics_of (fst (snd nc)))) cs"
    by (auto simp: list_all_iff)
  note eq = Collect_mset [OF assms run]
  have "mset (filter (\<lambda>m. metricDesc m = scrapeDurationDesc \<and> labelValues m = [fst nc])
                 (metrics_of ch)) = {#durationGauge (fst nc) (elapsed (fst nc))#}"
    using meta_filter_sum [OF dist mem nd,
        of "\<lambda>nc. durationGauge (fst nc) (elapsed (fst nc))"
           "\<lambda>nc. successGauge (fst nc) (snd (snd nc))"]
      meta_descs_differ
    by (simp add: eq durationGauge_def successGauge_def)
  then show "filter (\<lambda>m. metricDesc m = scrapeDurationDesc \<and> labelValues m = [fst nc])
                (metrics_of ch) = [durationGauge (fst nc) (elapsed (fst nc))]"
    by (rule iffD1 [OF mset_single_iff])
  have "mset (filter (\<lambda>m. metricDesc m = scrapeSuccessDesc \<and> labelValues m = [fst nc])
                 (metrics_of ch)) = {#successGauge (fst nc) (snd (snd nc))#}"
    using meta_filter_sum [OF dist mem ns,
        of "\<lambda>nc. successGauge (fst nc) (snd (snd nc))"
           "\<lambda>nc. durationGauge (fst nc) (elapsed (fst nc))"]
      meta_descs_differ
    by (simp add: eq durationGauge_def successGauge_def add_mset_commute)
  then show "filter (\<lambda>m. metricDesc m = scrapeSuccessDesc \<and> labelValues m = [fst nc])
                (metrics_of ch) = [successGauge (fst nc) (snd (snd nc))]"
    by (rule iffD1 [OF mset_single_iff])
qed


lemma interleave_two_done: "interleave [[], []] []"
  by (simp add: interleave.finished)

lemma interleave_two_left: "interleave [xs, ys] zs \<Longrightarrow> interleave [x # xs, ys] (x # zs)"
  using interleave.step [of 0 "[x # xs, ys]" x xs zs] by simp

lemma interleave_two_right: "interleave [xs, ys] zs \<Longrightarrow> interleave [xs, y # ys] (y # zs)"
  using interleave.step [of 1 "[xs, y # ys]" y ys zs] by simp

lemma execute_failed:
  assumes "ValidString name" and "snd c = Returned (Some e)" and "e \<noteq> ErrNoData"
  shows "execute name c seconds =
           Some (fst c @ [Logged Error ''collector failed'', Sent (durationGauge name seconds),
                          Sent (successGauge name (snd c))])"
  using assms
  by (simp add: execute_def MustNewConstMetric_def scrapeDurationDesc_def scrapeSuccessDesc_def
      durationGauge_def successGauge_def IsNoDataError_def)

lemma execute_succeeded:
  assumes "ValidString name" and "snd c = Returned None"
  shows "execute name c seconds =
           Some (fst c @ [Logged Debug ''collector succeeded'', Sent (durationGauge name seconds),
                          Sent (successGauge name (snd c))])"
  using assms
  by (simp add: execute_def MustNewConstMetric_def scrapeDurationDesc_def scrapeSuccessDesc_def
      durationGauge_def successGauge_def)

lemma process_meta_descs_differ:
  "processGPUMem \<noteq> scrapeDurationDesc" "processCPU \<noteq> scrapeDurationDesc"
  "processMem \<noteq> scrapeDurationDesc" "processGPUMem \<noteq> scrapeSuccessDesc"
  "processCPU \<noteq> scrapeSuccessDesc" "processMem \<noteq> scrapeSuccessDesc"
  by (simp_all add: processGPUMem_def processCPU_def processMem_def scrapeDurationDesc_def
      scrapeSuccessDesc_def processLabels_def)

lemma goroutines_two:
  "goroutines (\<lambda>name. 1/100) cs_two =
     [Some [Logged Error ''collector failed'',
            Sent (durationGauge ''gpu_metrics'' (1/100)),
            Sent (successGauge ''gpu_metrics''
              (Returned (Some (Wrap ''failed to initialize DCGM'' (ErrorString ''dcgm not running'')))))],
      Some [Logged Debug ''nvml process info unavailable'',
            Sent \<lparr>metricDesc = processGPUMem, gaugeValue = 1024, labelValues = labels_python\<rparr>,
            Sent \<lparr>metricDesc = processCPU, gaugeValue = 80, labelValues = labels_python\<rparr>,
            Sent \<lparr>metricDesc = processMem, gaugeValue = 3/2, labelValues = labels_python\<rparr>,
            Logged Debug ''collector succeeded'',
            Sent (durationGauge ''gpu_process'' (1/100)),
            Sent (successGauge ''gpu_process'' (Returned None))]]"
  using Update_base
  by (simp add: goroutines_def cs_two_def asCollector_def execute_failed execute_succeeded
      ValidString_ascii)

lemma Collect_two: "NvidiaGPUCollector_Collect (\<lambda>name. 1/100) cs_two ch_two"
  unfolding NvidiaGPUCollector_Collect_def goroutines_two ch_two_def
  by (simp, intro interleave_two_left interleave_two_right interleave_two_done)

lemma execute_no_data:
  assumes "ValidString name" and "snd c = Returned (Some ErrNoData)"
  shows "execute name c seconds =
           Some (fst c @ [Logged Debug ''collector returned no data'',
                          Sent (durationGauge name seconds), Sent (successGauge name (snd c))])"
  using assms
  by (simp add: execute_def MustNewConstMetric_def scrapeDurationDesc_def scrapeSuccessDesc_def
      durationGauge_def successGauge_def IsNoDataError_def)

lemma Collect_nodata: "NvidiaGPUCollector_Collect (\<lambda>name. 1/100) cs_nodata ch_nodata"
  using interleave_concat [of "[ch_nodata]"]
  by (simp add: NvidiaGPUCollector_Collect_def goroutines_def cs_nodata_def execute_no_data
      ValidString_ascii ch_nodata_def)

theorem Collect_meta_metrics_witness:
  "list_all (\<lambda>nc. ValidString (fst nc) \<and> snd (snd nc) \<noteq> Panicked) cs_two
   \<and> NvidiaGPUCollector_Collect (\<lambda>name. 1/100) cs_two ch_two
   \<and> filter (\<lambda>m. metricDesc m = scrapeSuccessDesc \<and> labelValues m = [''gpu_metrics''])
        (metrics_of ch_two)
      = [\<lparr>metricDesc = scrapeSuccessDesc, gaugeValue = 0, labelValues = [''gpu_metrics'']\<rparr>]
   \<and> filter (\<lambda>m. metricDesc m = scrapeSuccessDesc \<and> labelValues m = [''gpu_process''])
        (metrics_of ch_two)
      = [\<lparr>metricDesc = scrapeSuccessDesc, gaugeValue = 1, labelValues = [''gpu_process'']\<rparr>]
   \<and> filter (\<lambda>m. metricDesc m = scrapeDurationDesc \<and> labelValues m = [''gpu_metrics''])
        (metrics_of ch_two)
      = [\<lparr>metricDesc = scrapeDurationDesc, gaugeValue = 1/100, labelValues = [''gpu_metrics'']\<rparr>]
   \<and> filter (\<lambda>m. metricDesc m = scrapeDurationDesc \<and> labelValues m = [''gpu_process''])
        (metrics_of ch_two)
      = [\<lparr>metricDesc = scrapeDurationDesc, gaugeValue = 1/100, labelValues = [''gpu_process'']\<rparr>]
   \<and> NvidiaGPUCollector_Collect (\<lambda>name. 1/100) cs_nodata ch_nodata
   \<and> mset (metrics_of ch_nodata)
      = {#\<lparr>metricDesc = scrapeDurationDesc, gaugeValue = 1/100, labelValues = [''gpu_metrics'']\<rparr>,
          \<lparr>metricDesc = scrapeSuccessDesc, gaugeValue = 0, labelValues = [''gpu_metrics'']\<rparr>#}"
proof -
  have r: "fst (snd (Update c_100 w_base)) = Returned None"
    using Update_base by simp
  have tr: "metrics_of (fst (Update c_100 w_base)) =
      [\<lparr>metricDesc = processGPUMem, gaugeValue = 1024, labelValues = labels_python\<rparr>,
       \<lparr>metricDesc = processCPU, gaugeValue = 80, labelValues = labels_python\<rparr>,
       \<lparr>metricDesc = processMem, gaugeValue = 3/2, labelValues = labels_python\<rparr>]"
    using Update_base by simp
  have hyp: "list_all (\<lambda>nc. ValidString (fst nc) \<and> snd (snd nc) \<noteq> Panicked) cs_two"
    by (simp add: cs_two_def asCollector_def r ValidString_ascii)
  have names: "distinct (map fst cs_two)
               \<and> list_all (\<lambda>nc. list_all (\<lambda>m. metricDesc m \<noteq> scrapeDurationDesc
                                           \<and> metricDesc m \<noteq> scrapeSuccessDesc)
                                    (metrics_of (fst (snd nc)))) cs_two"
    by (simp add: cs_two_def asCollector_def tr process_meta_descs_differ)
  have mem: "(''gpu_metrics'',
       ([], Returned (Some (Wrap ''failed to initialize DCGM'' (ErrorString ''dcgm not running'')))))
       \<in> set cs_two"
    "(''gpu_process'', asCollector (Update c_100 w_base)) \<in> set cs_two"
    by (simp_all add: cs_two_def)
  from Collect_meta_metrics [OF hyp, of "\<lambda>name. 1/100"] Collect_two names
  have all: "\<forall>nc \<in> set cs_two.
                filter (\<lambda>m. metricDesc m = scrapeDurationDesc \<and> labelValues m = [fst nc])
                  (metrics_of ch_two) = [durationGauge (fst nc) (1/100)]
                \<and> filter (\<lambda>m. metricDesc m = scrapeSuccessDesc \<and> labelValues m = [fst nc])
                    (metrics_of ch_two) = [successGauge (fst nc) (snd (snd nc))]"
    by blast
  have r2: "snd (asCollector (Update c_100 w_base)) = Returned None"
    by (simp add: asCollector_def r)
  from all mem(1) have a1:
    "filter (\<lambda>m. metricDesc m = scrapeDurationDesc \<and> labelValues m = [''gpu_metrics''])
       (metrics_of ch_two) = [durationGauge ''gpu_metrics'' (1/100)]
     \<and> filter (\<lambda>m. metricDesc m = scrapeSuccessDesc \<and> labelValues m = [''gpu_metrics''])
         (metrics_of ch_two)
       = [successGauge ''gpu_metrics''
            (Returned (Some (Wrap ''failed to initialize DCGM'' (ErrorString ''dcgm not running''))))]"
    by fastforce
  from all mem(2) have a2:
    "filter (\<lambda>m. metricDesc m = scrapeDurationDesc \<and> labelValues m = [''gpu_process''])
       (metrics_of ch_two) = [durationGauge ''gpu_process'' (1/100)]
     \<and> filter (\<lambda>m. metricDesc m = scrapeSuccessDesc \<and> labelValues m = [''gpu_process''])
         (metrics_of ch_two)
       = [successGauge ''gpu_process'' (snd (asCollector (Update c_100 w_base)))]"
    by fastforce
  have hyp': "list_all (\<lambda>nc. ValidString (fst nc) \<and> snd (snd nc) \<noteq> Panicked) cs_nodata"
    by (simp add: cs_nodata_def ValidString_ascii)
  from Collect_meta_metrics [OF hyp', of "\<lambda>name. 1/100"] Collect_nodata
  have a3: "mset (metrics_of ch_nodata) =
              (\<Sum>nc\<leftarrow>cs_nodata. mset (metrics_of (fst (snd nc)))
                         + {#durationGauge (fst nc) (1/100), successGauge (fst nc) (snd (snd nc))#})"
    by blast
  have a4: "mset (metrics_of ch_nodata)
      = {#\<lparr>metricDesc = scrapeDurationDesc, gaugeValue = 1/100, labelValues = [''gpu_metrics'']\<rparr>,
          \<lparr>metricDesc = scrapeSuccessDesc, gaugeValue = 0, labelValues = [''gpu_metrics'']\<rparr>#}"
    unfolding a3 by (simp add: cs_nodata_def durationGauge_def successGauge_def)
  from a1 a2 a4 hyp Collect_two Collect_nodata show ?thesis
    by (simp add: durationGauge_def successGauge_def r2)
qed

section \<open>The command label\<close>

subsection \<open>Decoding what was encoded\<close>

lemma Decode_Encode_1:
  assumes "r \<le> 0x7F"
  shows "length (EncodeRune r) = 1" and "DecodeRune (EncodeRune r @ rest) = (r, 1)"
  using assms by (simp_all add: EncodeRune_def DecodeRune_def)

lemma Decode_Encode_2:
  assumes "0x7F < r" and "r \<le> 0x7FF"
  shows "length (EncodeRune r) = 2" and "DecodeRune (EncodeRune r @ rest) = (r, 2)"
proof -
  have e: "EncodeRune r = [0xC0 + r div 64, 0x80 + r mod 64]"
    using assms by (simp add: EncodeRune_def)
  show "length (EncodeRune r) = 2"
    by (simp add: e)
  have a: "2 \<le> r div 64" "r div 64 \<le> 31" "r mod 64 < 64"
    using assms by simp_all
  then show "DecodeRune (EncodeRune r @ rest) = (r, 2)"
    by (simp add: e DecodeRune_def is_cont_def)
qed

lemma split64:
  obtains q m where "(r::nat) = q * 64 + m" and "m < 64" and "r div 64 = q" and "r mod 64 = m"
  using that [of "r div 64" "r mod 64"] by simp

lemma Decode_Encode_3:
  assumes "0x7FF < r" and "r \<le> 0xFFFF" and "scalar r"
  shows "length (EncodeRune r) = 3" and "DecodeRune (EncodeRune r @ rest) = (r, 3)"
proof -
  obtain q m where r: "r = q * 64 + m" and m: "m < 64" and q: "r div 64 = q" and rm: "r mod 64 = m"
    by (rule split64)
  obtain q2 m2 where q2: "q = q2 * 64 + m2" and m2: "m2 < 64" and qd: "q div 64 = q2"
    and qm: "q mod 64 = m2"
    by (rule split64)
  have d: "r div 4096 = q2"
    using div_mult2_eq [of r 64 64] q qd by simp
  have e: "EncodeRune r = [0xE0 + q2, 0x80 + m2, 0x80 + m]"
    using assms by (auto simp: EncodeRune_def scalar_def d q qm rm)
  show "length (EncodeRune r) = 3"
    by (simp add: e)
  have b: "q2 \<le> 15"
    using assms(2) r q2 by linarith
  have lo: "q2 = 0 \<Longrightarrow> 32 \<le> m2"
    using assms(1) r q2 m by linarith
  have hi: "q2 = 13 \<Longrightarrow> m2 \<le> 31"
    using assms(3) r q2 m m2 unfolding scalar_def by linarith
  have so: "second_ok (0xE0 + q2) (0x80 + m2)"
    using b m2 lo hi by (auto simp: second_ok_def is_cont_def)
  have v: "q2 * 4096 + m2 * 64 + m = r"
    using r q2 by simp
  show "DecodeRune (EncodeRune r @ rest) = (r, 3)"
    using b m m2 so v by (simp add: e DecodeRune_def is_cont_def)
qed


lemma Decode_Encode_4:
  assumes "0xFFFF < r" and "r \<le> 0x10FFFF"
  shows "length (EncodeRune r) = 4" and "DecodeRune (EncodeRune r @ rest) = (r, 4)"
proof -
  obtain q m where r: "r = q * 64 + m" and m: "m < 64" and q: "r div 64 = q" and rm: "r mod 64 = m"
    by (rule split64)
  obtain q2 m2 where q2: "q = q2 * 64 + m2" and m2: "m2 < 64" and qd: "q div 64 = q2"
    and qm: "q mod 64 = m2"
    by (rule split64)
  obtain q3 m3 where q3: "q2 = q3 * 64 + m3" and m3: "m3 < 64" and qd3: "q2 div 64 = q3"
    and qm3: "q2 mod 64 = m3"
    by (rule split64)
  have d2: "r div 4096 = q2"
    using div_mult2_eq [of r 64 64] q qd by simp
  have d3: "r div 262144 = q3"
    using div_mult2_eq [of r 4096 64] d2 qd3 by simp
  have e: "EncodeRune r = [0xF0 + q3, 0x80 + m3, 0x80 + m2, 0x80 + m]"
    using assms by (auto simp: EncodeRune_def d2 d3 q qm qm3 rm)
  show "length (EncodeRune r) = 4"
    by (simp add: e)
  have b: "q3 \<le> 4"
    using assms(2) r q2 q3 by linarith
  have lo: "q3 = 0 \<Longrightarrow> 16 \<le> m3"
    using assms(1) r q2 q3 m m2 by linarith
  have hi: "q3 = 4 \<Longrightarrow> m3 \<le> 15"
    using assms(2) r q2 q3 by linarith
  have so: "second_ok (0xF0 + q3) (0x80 + m3)"
    using b m3 lo hi by (auto simp: second_ok_def is_cont_def)
  have v: "q3 * 262144 + m3 * 4096 + m2 * 64 + m = r"
    using r q2 q3 by simp
  show "DecodeRune (EncodeRune r @ rest) = (r, 4)"
    using b m m2 m3 so v by (simp add: e DecodeRune_def is_cont_def)
qed

lemma Decode_Encode:
  assumes "scalar r"
  shows "DecodeRune (EncodeRune r @ rest) = (r, length (EncodeRune r))"
    and "0 < length (EncodeRune r)"
proof -
  consider "r \<le> 0x7F" | "0x7F < r \<and> r \<le> 0x7FF" | "0x7FF < r \<and> r \<le> 0xFFFF"
    | "0xFFFF < r \<and> r \<le> 0x10FFFF"
    using assms unfolding scalar_def by linarith
  then have "DecodeRune (EncodeRune r @ rest) = (r, length (EncodeRune r))
             \<and> 0 < length (EncodeRune r)"
  proof cases
    case 1
    then show ?thesis by (simp add: Decode_Encode_1)
  next
    case 2
    then show ?thesis by (simp add: Decode_Encode_2)
  next
    case 3
    then show ?thesis using assms by (simp add: Decode_Encode_3)
  next
    case 4
    then show ?thesis by (simp add: Decode_Encode_4)
  qed
  then show "DecodeRune (EncodeRune r @ rest) = (r, length (EncodeRune r))"
    and "0 < length (EncodeRune r)"
    by simp_all
qed

lemma segments_Encode:
  assumes "scalar r"
  shows "segments (EncodeRune r @ rest) = (r, EncodeRune r) # segments rest"
proof -
  from Decode_Encode(2) [OF assms] obtain b bs where e: "EncodeRune r = b # bs"
    by (cases "EncodeRune r") auto
  have d: "DecodeRune (b # bs @ rest) = (r, Suc (length bs))"
    using Decode_Encode(1) [OF assms, of rest] e by simp
  show ?thesis
    by (simp add: e segments.simps d)
qed

lemma segments_Encode_all:
  "list_all scalar rs \<Longrightarrow>
     segments (concat (map EncodeRune rs)) = map (\<lambda>r. (r, EncodeRune r)) rs"
  by (induction rs) (simp_all add: segments.simps segments_Encode)


lemma DecodeRune_scalar: "scalar (fst (DecodeRune bs))"
proof (cases bs)
  case Nil
  then show ?thesis by (simp add: DecodeRune_def scalar_def RuneError_def)
next
  case (Cons b0 rest)
  consider "b0 < 0x80" | "0xC2 \<le> b0 \<and> b0 \<le> 0xDF" | "0xE0 \<le> b0 \<and> b0 \<le> 0xEF"
    | "0xF0 \<le> b0 \<and> b0 \<le> 0xF4" | "(0x80 \<le> b0 \<and> b0 < 0xC2) \<or> 0xF4 < b0"
    by linarith
  then show ?thesis
  proof cases
    case 1
    with Cons show ?thesis by (simp add: DecodeRune_def scalar_def)
  next
    case 2
    with Cons show ?thesis
      by (auto simp: DecodeRune_def scalar_def RuneError_def is_cont_def split: list.splits)
  next
    case 3
    with Cons show ?thesis
      by (auto simp: DecodeRune_def scalar_def RuneError_def is_cont_def second_ok_def
          split: list.splits if_splits)
  next
    case 4
    with Cons show ?thesis
      by (auto simp: DecodeRune_def scalar_def RuneError_def is_cont_def second_ok_def
          split: list.splits if_splits)
  next
    case 5
    with Cons show ?thesis
      by (auto simp: DecodeRune_def scalar_def RuneError_def)
  qed
qed

lemma segments_scalar: "list_all (\<lambda>sg. scalar (fst sg)) (segments bs)"
proof (induction bs rule: segments.induct)
  case 1
  show ?case by (simp add: segments.simps)
next
  case (2 b bs)
  then show ?case by (simp add: segments.simps DecodeRune_scalar)
qed

lemma runes_scalar: "list_all scalar (runes s)"
  using segments_scalar [of "bytes_of s"] by (simp add: runes_def list_all_iff)

lemma length_segments: "length (segments bs) \<le> length bs"
proof (induction bs rule: segments.induct)
  case 1
  show ?case by (simp add: segments.simps)
next
  case (2 b bs)
  have "length (segments (drop (snd (DecodeRune (b # bs)) - 1) bs)) \<le> length bs"
    using 2 by simp
  then show ?case by (simp add: segments.simps)
qed

lemma length_runes: "length (runes s) \<le> length s"
  using length_segments [of "bytes_of s"] by (simp add: runes_def bytes_of_def)

lemma EncodeRune_bytes: "scalar r \<Longrightarrow> list_all (\<lambda>b. b < 256) (EncodeRune r)"
proof -
  assume "scalar r"
  then have "r \<le> 0x10FFFF" by (auto simp: scalar_def)
  then have "r div 64 < 32 \<or> r \<le> 0x7F \<or> 0x7FF < r" "r div 4096 < 16 \<or> 0xFFFF < r"
    "r div 262144 \<le> 4"
    by linarith+
  then show ?thesis
    by (auto simp: EncodeRune_def)
qed

lemma bytes_of_string_of: "list_all (\<lambda>b. b < 256) bs \<Longrightarrow> bytes_of (string_of bs) = bs"
  by (induction bs) (simp_all add: bytes_of_def string_of_def)

lemma runes_string_of_runes:
  assumes "list_all scalar rs"
  shows "runes (string_of_runes rs) = rs" and "ValidString (string_of_runes rs)"
proof -
  have b: "list_all (\<lambda>b. b < 256) (concat (map EncodeRune rs))"
    using assms EncodeRune_bytes by (induction rs) (auto simp: list_all_iff)
  have s: "segments (bytes_of (string_of_runes rs)) = map (\<lambda>r. (r, EncodeRune r)) rs"
    by (simp add: string_of_runes_def bytes_of_string_of [OF b] segments_Encode_all [OF assms])
  show "runes (string_of_runes rs) = rs"
    by (simp add: runes_def s comp_def)
  have "\<not> bad_segment (r, EncodeRune r)" for r
    by (auto simp: bad_segment_def RuneError_def EncodeRune_def)
  then show "ValidString (string_of_runes rs)"
    by (simp add: ValidString_def s filter_empty_conv)
qed

lemma limitCommand_by_runes:
  assumes "maxCommandLabelLength < length (runes command)"
  shows "runes (limitCommand command) = take maxCommandLabelLength (runes command)"
    and "length (runes (limitCommand command)) = maxCommandLabelLength"
    and "ValidString (limitCommand command)"
proof -
  have l: "maxCommandLabelLength < length command"
    using assms length_runes [of command] by linarith
  have t: "list_all scalar (take maxCommandLabelLength (runes command))"
    using runes_scalar [of command] by (auto simp: list_all_iff dest: in_set_takeD)
  have c: "limitCommand command = string_of_runes (take maxCommandLabelLength (runes command))"
    using assms l by (simp add: limitCommand_def Let_def)
  show "runes (limitCommand command) = take maxCommandLabelLength (runes command)"
    by (simp add: c runes_string_of_runes(1) [OF t])
  then show "length (runes (limitCommand command)) = maxCommandLabelLength"
    using assms by simp
  show "ValidString (limitCommand command)"
    by (simp add: c runes_string_of_runes(2) [OF t])
qed

text \<open>
  So the first branch of the truncation does what it is meant to do: a label with more
  than 200 code points is cut to its first 200 code points, whole characters only. And a
  label of at most 200 bytes is not touched.
\<close>

lemma limitCommand_short:
  "length command \<le> maxCommandLabelLength \<Longrightarrow> limitCommand command = command"
  by (simp add: limitCommand_def Let_def)

subsection \<open>More than 200 bytes in at most 200 code points\<close>

lemma bytes_of_euro: "bytes_of euro = [226, 130, 172]"
  by (simp add: bytes_of_def euro_def)

lemma segments_euro:
  "segments (226 # 130 # 172 # bs) = (8364, [226, 130, 172]) # segments bs"
  by (simp add: segments.simps DecodeRune_def second_ok_def is_cont_def)

lemma bytes_of_append: "bytes_of (a @ b) = bytes_of a @ bytes_of b"
  by (simp add: bytes_of_def)

lemma segments_euros:
  "segments (bytes_of (concat (replicate n euro)) @ bs) =
     replicate n (8364, [226, 130, 172]) @ segments bs"
proof (induction n)
  case 0
  show ?case by (simp add: bytes_of_def)
next
  case (Suc n)
  have "bytes_of (concat (replicate (Suc n) euro)) @ bs =
          226 # 130 # 172 # (bytes_of (concat (replicate n euro)) @ bs)"
    by (simp add: bytes_of_append bytes_of_euro)
  with Suc show ?case
    by (simp add: segments_euro)
qed

lemma segments_cut: "segments [226, 130] = [(RuneError, [226]), (RuneError, [130])]"
  by (simp add: segments.simps DecodeRune_def second_ok_def is_cont_def)

lemma length_euros: "length (concat (replicate n euro)) = 3 * n"
  by (induction n) (simp_all add: euro_def)

lemma runes_euros: "runes (concat (replicate n euro)) = replicate n 8364"
  using segments_euros [of n "[]"] by (simp add: runes_def segments.simps)

lemma take_euros:
  "take 200 (concat (replicate 67 euro)) = concat (replicate 66 euro) @ [CHR 0xE2, CHR 0x82]"
proof -
  have "replicate 67 euro = replicate 66 euro @ [euro]"
    using replicate_add [of 66 1 euro] by simp
  then have "concat (replicate 67 euro) = concat (replicate 66 euro) @ euro"
    by simp
  then show ?thesis
    by (simp add: length_euros) (simp add: euro_def)
qed

lemma limitCommand_euros:
  "limitCommand (concat (replicate 67 euro)) = concat (replicate 66 euro) @ [CHR 0xE2, CHR 0x82]"
  by (simp add: limitCommand_def maxCommandLabelLength_def length_euros runes_euros take_euros)

lemma invalid_cut: "\<not> ValidString (concat (replicate 66 euro) @ [CHR 0xE2, CHR 0x82])"
proof -
  have "bytes_of [CHR 0xE2, CHR 0x82] = [226, 130]"
    by (simp add: bytes_of_def)
  then have "segments (bytes_of (concat (replicate 66 euro) @ [CHR 0xE2, CHR 0x82])) =
               replicate 66 (8364, [226, 130, 172]) @ [(RuneError, [226]), (RuneError, [130])]"
    using segments_euros [of 66 "[226, 130]"] by (simp add: bytes_of_append segments_cut)
  then show ?thesis
    by (simp add: ValidString_def bad_segment_def)
qed

lemma TrimSpace_euros: "TrimSpace (concat (replicate 67 euro)) = concat (replicate 67 euro)"
proof -
  have s: "segments (bytes_of (concat (replicate 67 euro))) = replicate 67 (8364, [226, 130, 172])"
    using segments_euros [of 67 "[]"] by (simp add: segments.simps)
  show ?thesis
    by (rule TrimSpace_unchanged [OF s]) (simp_all add: IsSpace_def)
qed

lemma collect_euro:
  "collectProcessInfo w_euro 42 ''python'' =
     Inr (\<lparr>meta_name = ''python'', meta_uid = ''1000'',
           meta_command = concat (replicate 66 euro) @ [CHR 0xE2, CHR 0x82]\<rparr>, 3/2, 3)"
proof -
  have e: "concat (replicate 67 euro) \<noteq> []"
    using length_euros [of 67] by auto
  show ?thesis
    using e
    by (simp add: collectProcessInfo_def w_euro_def w_base_sel proc_python_def FormatInt_def
        FormatUint.simps digit_def unknownProcessLabel_def TrimSpace_euros limitCommand_euros
        TrimSpace_ascii IsSpace_def)
qed


lemma valid_euros: "ValidString (concat (replicate 67 euro))"
  using segments_euros [of 67 "[]"]
  by (simp add: ValidString_def segments.simps bad_segment_def RuneError_def)

lemma pids_euro:
  "nvmlProcessPIDs w_euro = ([Logged Debug ''nvml process info unavailable''], Inr [42])"
  by (simp add: nvmlProcessPIDs_def w_euro_def w_base_sel Let_def upto_0_0 addNVMLProcessInfo_def
      dev_python_def)

lemma Update_euro_panics: "fst (snd (Update c_100 w_euro)) = Panicked"
proof -
  have g: "dcgm_Init w_euro = None" "dcgm_WatchPidFields w_euro = None"
    "dcgm_DestroyGroup w_euro = None" "runtime_NumCPU w_euro = 8"
    "dcgm_GetProcessInfo w_euro pid =
       Inr [\<lparr>info_GPU = 0, info_PID = pid, info_Name = ''python'', Memory_GlobalUsed = 1024\<rparr>]"
    for pid
    by (simp_all add: w_euro_def w_base_sel)
  have t: "readTotalCPUSeconds w_euro = Inr 110"
    by (simp add: readTotalCPUSeconds_def w_euro_def w_base_sel)
  have m: "MustNewConstMetric d v
             [h, a, b, ''python'', ''1000'', concat (replicate 66 euro) @ [CHR 0xE2, CHR 0x82]]
           = None" for d v h a b
    using invalid_cut by (simp add: MustNewConstMetric_def)
  show ?thesis
    by (simp add: Update_def pids_euro t g Let_def updatePid_def collect_euro emitInfo_def m
        send_def andThen_def)
qed

text \<open>
  C7. What \<open>collectProcessInfo\<close> does where the claim and the code part. The command
  line of pid 42 is 67 euro signs: valid UTF-8, 67 code points, 201 bytes. It has no more
  than 200 code points, so the claim leaves it unchanged. The code finds more than 200
  bytes and not more than 200 code points, and slices the first 200 bytes: the label
  is 66 euro signs followed by the first two bytes of the 67th. The label differs from
  the command line, is not valid UTF-8 (it decodes to 68 code points, two of them
  U+FFFD), and \<open>MustNewConstMetric\<close> panics on it, so the cycle does not return.
\<close>

theorem collectProcessInfo_byte_slice:
  "length (runes (concat (replicate 67 euro))) = 67
   \<and> ValidString (concat (replicate 67 euro))
   \<and> collectProcessInfo w_euro 42 ''python'' =
       Inr (\<lparr>meta_name = ''python'', meta_uid = ''1000'',
             meta_command = concat (replicate 66 euro) @ [CHR 0xE2, CHR 0x82]\<rparr>, 3/2, 3)
   \<and> concat (replicate 66 euro) @ [CHR 0xE2, CHR 0x82] \<noteq> concat (replicate 67 euro)
   \<and> length (runes (concat (replicate 66 euro) @ [CHR 0xE2, CHR 0x82])) = 68
   \<and> \<not> ValidString (concat (replicate 66 euro) @ [CHR 0xE2, CHR 0x82])
   \<and> fst (snd (Update c_100 w_euro)) = Panicked"
proof -
  have d: "concat (replicate 66 euro) @ [CHR 0xE2, CHR 0x82] \<noteq> concat (replicate 67 euro)"
  proof
    assume "concat (replicate 66 euro) @ [CHR 0xE2, CHR 0x82] = concat (replicate 67 euro)"
    then have "length (concat (replicate 66 euro) @ [CHR 0xE2, CHR 0x82])
                 = length (concat (replicate 67 euro))"
      by (rule arg_cong)
    then show False
      by (simp add: length_euros)
  qed
  have r: "length (runes (concat (replicate 66 euro) @ [CHR 0xE2, CHR 0x82])) = 68"
    using segments_euros [of 66 "[226, 130]"]
    by (simp add: runes_def bytes_of_append segments_cut) (simp add: bytes_of_def segments_cut)
  show ?thesis
    using d r by (simp add: runes_euros valid_euros collect_euro invalid_cut Update_euro_panics)
qed

section \<open>Two scrapes at once on one process collector\<close>

subsection \<open>A goroutine that runs alone does what \<open>Update\<close> does\<close>

lemma updatePids_Cons:
  "updatePids w h d has n (pid # pids) c =
     (if fst (snd (updatePid w h d has n c pid))
      then (fst (updatePid w h d has n c pid)
              @ fst (updatePids w h d has n pids (snd (snd (updatePid w h d has n c pid)))),
            snd (updatePids w h d has n pids (snd (snd (updatePid w h d has n c pid)))))
      else (fst (updatePid w h d has n c pid), False, snd (snd (updatePid w h d has n c pid))))"
  by (simp split: prod.splits)

lemma schedule_one:
  "schedule [snd (f c)] (fst (f c)) gs' c' \<Longrightarrow> schedule [Step f] c gs' c'"
  using schedule.call [of 0 "[Step f]" f c gs' c'] by simp

lemma Update_loop_completes:
  assumes "fst (snd (updatePid w h d has n c pid))"
    and "schedule [Update_loop w h d has n active destroy (evs @ fst (updatePid w h d has n c pid)) pids]
           (snd (snd (updatePid w h d has n c pid))) gs' c'"
  shows "schedule [Update_loop w h d has n active destroy evs (pid # pids)] c gs' c'"
  using assms
  by (auto simp add: updatePid_def Let_def intro!: schedule_one
      split: sum.splits list.splits prod.splits if_splits)

lemma Update_loop_panics:
  assumes "\<not> fst (snd (updatePid w h d has n c pid))"
  shows "schedule [Update_loop w h d has n active destroy evs (pid # pids)] c
           [Ended (evs @ fst (updatePid w h d has n c pid) @ destroy) Panicked]
           (snd (snd (updatePid w h d has n c pid)))"
  using assms
  by (auto simp add: updatePid_def Let_def schedule.stay intro!: schedule_one
      split: sum.splits list.splits prod.splits if_splits)

lemma schedule_loop:
  "schedule [Update_loop w h d has n active destroy evs pids] c
     [Ended (evs @ fst (updatePids w h d has n pids c) @ destroy)
        (if fst (snd (updatePids w h d has n pids c)) then Returned None else Panicked)]
     (if fst (snd (updatePids w h d has n pids c))
      then pruneCPUSamples (snd (snd (updatePids w h d has n pids c))) active
      else snd (snd (updatePids w h d has n pids c)))"
proof (induction pids arbitrary: evs c)
  case Nil
  show ?case by (simp add: schedule_one schedule.stay)
next
  case (Cons pid pids)
  show ?case
  proof (cases "fst (snd (updatePid w h d has n c pid))")
    case True
    show ?thesis
      using Update_loop_completes [OF True Cons.IH [of "evs @ fst (updatePid w h d has n c pid)" "snd (snd (updatePid w h d has n c pid))"]] True
      by (simp only: updatePids_Cons if_True fst_conv snd_conv append_assoc)
  next
    case False
    show ?thesis
      using Update_loop_panics [OF False, of active destroy evs pids] False
      by (simp only: updatePids_Cons if_False fst_conv snd_conv append_assoc)
  qed
qed

lemma Update_goroutine_alone:
  "schedule [Update_goroutine w] c
     [Ended (fst (Update c w)) (fst (snd (Update c w)))] (snd (snd (Update c w)))"
proof (cases "snd (nvmlProcessPIDs w)")
  case (Inl err)
  then show ?thesis by (simp add: Update_goroutine_def Update_def Let_def schedule.stay)
next
  case (Inr pids)
  show ?thesis
  proof (cases "pids = []")
    case True
    then show ?thesis using Inr
      by (simp add: Update_goroutine_def Update_def Let_def schedule.stay schedule_one)
  next
    case False
    show ?thesis
    proof (cases "readTotalCPUSeconds w")
      case (Inl err)
      then show ?thesis using Inr False
        by (simp add: Update_goroutine_def Update_def Let_def schedule.stay)
    next
      case total: (Inr t)
      show ?thesis
      proof (cases "dcgm_Init w")
        case (Some err)
        then show ?thesis using Inr False total
          by (simp add: Update_goroutine_def Update_def Let_def schedule.stay schedule_one)
      next
        case None
        note init = None
        show ?thesis
        proof (cases "dcgm_WatchPidFields w")
          case (Some err)
          then show ?thesis using Inr False total init
            by (simp add: Update_goroutine_def Update_def Let_def schedule.stay schedule_one)
        next
          case None
          define r where "r = updatePids w (snd (hostNameOrDefault True w))
             (fst (fst (updateSystemSample c t))) (snd (fst (updateSystemSample c t)))
             (runtime_NumCPU w) pids (snd (updateSystemSample c t))"
          define destroy where "destroy = (case dcgm_DestroyGroup w of
             Some err \<Rightarrow> [Logged Debug ''failed to destroy pid group''] | None \<Rightarrow> [])"
          define pre where "pre = fst (hostNameOrDefault True w) @ fst (nvmlProcessPIDs w)"
          have u: "Update c w =
                (pre @ fst r @ destroy, (if fst (snd r) then Returned None else Panicked),
                 (if fst (snd r) then pruneCPUSamples (snd (snd r)) pids else snd (snd r)))"
            using Inr False total init None
            by (simp add: Update_def Let_def r_def destroy_def pre_def split: prod.splits)
          have g: "Update_goroutine w =
                Step (\<lambda>c. (snd (updateSystemSample c t),
                  Update_loop w (snd (hostNameOrDefault True w))
                    (fst (fst (updateSystemSample c t))) (snd (fst (updateSystemSample c t)))
                    (runtime_NumCPU w) pids destroy pre pids))"
            using Inr False total init None
            by (simp add: Update_goroutine_def Let_def destroy_def pre_def)
          show ?thesis
            unfolding u g fst_conv snd_conv
            by (rule schedule_one) (simp only: fst_conv snd_conv r_def schedule_loop)
        qed
      qed
    qed
  qed
qed


lemma schedule_trans:
  "schedule gs c gs1 c1 \<Longrightarrow> schedule gs1 c1 gs2 c2 \<Longrightarrow> schedule gs c gs2 c2"
  by (induction rule: schedule.induct) (auto intro: schedule.call)

lemma schedule_frame:
  "schedule gs c gs' c' \<Longrightarrow> schedule (xs @ gs @ ys) c (xs @ gs' @ ys) c'"
proof (induction rule: schedule.induct)
  case (stay gs c)
  show ?case by (rule schedule.stay)
next
  case (call i gs f c gs' c')
  have "schedule ((xs @ gs @ ys)[length xs + i := snd (f c)]) (fst (f c)) (xs @ gs' @ ys) c'"
    using call.IH call.hyps(1) by (simp add: list_update_append)
  moreover have "length xs + i < length (xs @ gs @ ys)" using call.hyps(1) by simp
  moreover have "(xs @ gs @ ys) ! (length xs + i) = Step f"
    using call.hyps(1,2) by (simp add: nth_append)
  ultimately show ?case by (rule schedule.call [rotated 2])
qed

lemma schedule_alone_unique:
  assumes "schedule gs c gs' c'" and "gs = [g]" and "gs' = [Ended evs oc]"
    and "schedule [g] c [Ended evs2 oc2] c2"
  shows "evs2 = evs \<and> oc2 = oc \<and> c2 = c'"
  using assms
proof (induction arbitrary: g rule: schedule.induct)
  case (stay gs c)
  from stay.prems(3) stay.prems(1,2) show ?case
    by (cases rule: schedule.cases) auto
next
  case (call i gs f c gs' c')
  from call.prems(1) call.hyps(1,2) have g: "g = Step f" by simp
  from call.prems(3) have "schedule [snd (f c)] (fst (f c)) [Ended evs2 oc2] c2"
    unfolding g by (cases rule: schedule.cases) auto
  moreover have "gs[i := snd (f c)] = [snd (f c)]" using call.prems(1) call.hyps(1) by simp
  ultimately show ?case using call.IH call.prems(2) by blast
qed

lemma Update_goroutine_alone_only:
  "schedule [Update_goroutine w] c [Ended evs oc] c' \<Longrightarrow> (evs, oc, c') = Update c w"
  using schedule_alone_unique [OF Update_goroutine_alone refl refl, of w c evs oc c']
  by (simp add: prod_eq_iff)

lemma Update_goroutines_in_turn:
  "schedule [Update_goroutine w1, Update_goroutine w2] c
     [Ended (fst (Update c w1)) (fst (snd (Update c w1))),
      Ended (fst (Update (snd (snd (Update c w1))) w2)) (fst (snd (Update (snd (snd (Update c w1))) w2)))]
     (snd (snd (Update (snd (snd (Update c w1))) w2)))"
proof -
  have "schedule ([] @ [Update_goroutine w1] @ [Update_goroutine w2]) c
          ([] @ [Ended (fst (Update c w1)) (fst (snd (Update c w1)))] @ [Update_goroutine w2])
          (snd (snd (Update c w1)))"
    by (rule schedule_frame) (rule Update_goroutine_alone)
  moreover have "schedule ([Ended (fst (Update c w1)) (fst (snd (Update c w1)))] @ [Update_goroutine w2] @ [])
          (snd (snd (Update c w1)))
          ([Ended (fst (Update c w1)) (fst (snd (Update c w1)))]
             @ [Ended (fst (Update (snd (snd (Update c w1))) w2)) (fst (snd (Update (snd (snd (Update c w1))) w2)))] @ [])
          (snd (snd (Update (snd (snd (Update c w1))) w2)))"
    by (rule schedule_frame) (rule Update_goroutine_alone)
  ultimately show ?thesis using schedule_trans by simp
qed

text \<open>
  So the goroutine is the function \<open>Update\<close>: run alone from any collector it ends, and
  only so, with the events, the outcome and the collector of \<open>Update\<close>. And two scrapes
  that run one after the other, as they would under a lock held for the whole cycle, are
  among the schedules of two goroutines.
\<close>

subsection \<open>A schedule that no order of the two scrapes explains\<close>

lemma w_later_sel:
  "dcgm_Init w_later = None" "dcgm_WatchPidFields w_later = None" "dcgm_DestroyGroup w_later = None"
  "runtime_NumCPU w_later = 8"
  "dcgm_GetProcessInfo w_later pid =
     Inr [\<lparr>info_GPU = 0, info_PID = pid, info_Name = ''python'', Memory_GlobalUsed = 1024\<rparr>]"
  by (simp_all add: w_later_def w_base_def)

lemma pids_later:
  "nvmlProcessPIDs w_later = ([Logged Debug ''nvml process info unavailable''], Inr [42])"
  by (simp add: nvmlProcessPIDs_def w_later_def w_base_def Let_def upto_0_0 addNVMLProcessInfo_def
      dev_python_def)

lemma host_later: "hostNameOrDefault True w_later = ([], ''gpu-host'')"
  by (simp add: hostNameOrDefault_def w_later_def w_base_def)

lemma total_later: "readTotalCPUSeconds w_later = Inr 120"
  by (simp add: readTotalCPUSeconds_def w_later_def)

lemma collect_later:
  "collectProcessInfo w_later 42 ''python'' =
     Inr (\<lparr>meta_name = ''python'', meta_uid = ''1000'', meta_command = ''python train.py''\<rparr>,
          3/2, 4)"
  by (simp add: collectProcessInfo_def w_later_def proc_python_def FormatInt_def FormatUint.simps
      digit_def limitCommand_def maxCommandLabelLength_def unknownProcessLabel_def
      TrimSpace_ascii IsSpace_def)

lemma emit_later:
  "emitInfo w_later ''gpu-host''
     \<lparr>meta_name = ''python'', meta_uid = ''1000'', meta_command = ''python train.py''\<rparr> v m
     \<lparr>info_GPU = 0, info_PID = 42, info_Name = ''python'', Memory_GlobalUsed = 1024\<rparr>
   = ([Sent \<lparr>metricDesc = processGPUMem, gaugeValue = 1024, labelValues = labels_python\<rparr>,
       Sent \<lparr>metricDesc = processCPU, gaugeValue = v, labelValues = labels_python\<rparr>,
       Sent \<lparr>metricDesc = processMem, gaugeValue = m, labelValues = labels_python\<rparr>], True)"
  by (simp add: emitInfo_def andThen_def send_def MustNewConstMetric_def sanitizeBytes_def
      w_later_def w_base_def processGPUMem_def processCPU_def processMem_def processLabels_def
      FormatUint.simps digit_def ValidString_ascii labels_python_def Let_def)

lemma goroutine_base:
  "Update_goroutine w_base =
     Step (\<lambda>c. (snd (updateSystemSample c 110),
                 Update_loop w_base ''gpu-host'' (fst (fst (updateSystemSample c 110)))
                   (snd (fst (updateSystemSample c 110))) 8 [42] []
                   [Logged Debug ''nvml process info unavailable''] [42]))"
  by (simp add: Update_goroutine_def pids_base host_base total_base w_base_sel Let_def
      del: Update_loop.simps)

lemma goroutine_later:
  "Update_goroutine w_later =
     Step (\<lambda>c. (snd (updateSystemSample c 120),
                 Update_loop w_later ''gpu-host'' (fst (fst (updateSystemSample c 120)))
                   (snd (fst (updateSystemSample c 120))) 8 [42] []
                   [Logged Debug ''nvml process info unavailable''] [42]))"
  by (simp add: Update_goroutine_def pids_later host_later total_later w_later_sel Let_def
      del: Update_loop.simps)

lemma loop_base:
  "Update_loop w_base ''gpu-host'' d has 8 [42] [] [Logged Debug ''nvml process info unavailable''] [42] =
     Step (\<lambda>c. (snd (processCPUPercent c 42 3 d has 8),
                 Update_loop w_base ''gpu-host'' d has 8 [42] []
                   (sent_python (if fst (processCPUPercent c 42 3 d has 8) < 0 then 0
                                 else fst (processCPUPercent c 42 3 d has 8))) []))"
  by (subst Update_loop.simps(2))
     (simp add: w_base_sel collect_base emit_base andThen_def Let_def sent_python_def
        del: Update_loop.simps)

lemma loop_later:
  "Update_loop w_later ''gpu-host'' d has 8 [42] [] [Logged Debug ''nvml process info unavailable''] [42] =
     Step (\<lambda>c. (snd (processCPUPercent c 42 4 d has 8),
                 Update_loop w_later ''gpu-host'' d has 8 [42] []
                   (sent_python (if fst (processCPUPercent c 42 4 d has 8) < 0 then 0
                                 else fst (processCPUPercent c 42 4 d has 8))) []))"
  by (subst Update_loop.simps(2))
     (simp add: w_later_sel collect_later emit_later andThen_def Let_def sent_python_def
        del: Update_loop.simps)

lemma schedule_first:
  "a = Step f \<Longrightarrow> f c = (c1, a1) \<Longrightarrow> schedule [a1, b] c1 gs' c' \<Longrightarrow> schedule [a, b] c gs' c'"
  using schedule.call [of 0 "[a, b]" f c gs' c'] by simp

lemma schedule_second:
  "b = Step f \<Longrightarrow> f c = (c1, b1) \<Longrightarrow> schedule [a, b1] c1 gs' c' \<Longrightarrow> schedule [a, b] c gs' c'"
  using schedule.call [of 1 "[a, b]" f c gs' c'] by simp

lemma lost_run:
  "schedule [Update_goroutine w_base, Update_goroutine w_later] c_100
     [Ended (sent_python 0) (Returned None), Ended (sent_python 160) (Returned None)] c_lost"
proof -
  let ?pre = "[Logged Debug ''nvml process info unavailable'']"
  let ?c1 = "\<lparr>cpuSamples = [42 \<mapsto> \<lparr>cpuSeconds = 2\<rparr>],
              systemSample = \<lparr>totalSeconds = 110, initialized = True\<rparr>\<rparr>"
  let ?c2 = "\<lparr>cpuSamples = [42 \<mapsto> \<lparr>cpuSeconds = 2\<rparr>],
              systemSample = \<lparr>totalSeconds = 120, initialized = True\<rparr>\<rparr>"
  let ?c3 = "\<lparr>cpuSamples = [42 \<mapsto> \<lparr>cpuSeconds = 4\<rparr>],
              systemSample = \<lparr>totalSeconds = 120, initialized = True\<rparr>\<rparr>"
  let ?A1 = "Update_loop w_base ''gpu-host'' 10 True 8 [42] [] ?pre [42]"
  let ?B1 = "Update_loop w_later ''gpu-host'' 10 True 8 [42] [] ?pre [42]"
  let ?A2 = "Update_loop w_base ''gpu-host'' 10 True 8 [42] [] (sent_python 0) []"
  let ?B2 = "Update_loop w_later ''gpu-host'' 10 True 8 [42] [] (sent_python 160) []"
  let ?A3 = "Ended (sent_python 0) (Returned None)"
  let ?B3 = "Ended (sent_python 160) (Returned None)"
  have "schedule [?A3, ?B3] c_lost [?A3, ?B3] c_lost" by (rule schedule.stay)
  then have "schedule [?A2, ?B3] c_lost [?A3, ?B3] c_lost"
    by (rule schedule_first [OF Update_loop.simps(1), rotated])
       (simp add: pruneCPUSamples_def c_lost_def fun_eq_iff)
  then have "schedule [?A1, ?B3] ?c3 [?A3, ?B3] c_lost"
    by (rule schedule_first [OF loop_base, rotated])
       (simp add: processCPUPercent_def c_lost_def Let_def)
  then have "schedule [?A1, ?B2] ?c3 [?A3, ?B3] c_lost"
    by (rule schedule_second [OF Update_loop.simps(1), rotated])
       (simp add: pruneCPUSamples_def fun_eq_iff)
  then have "schedule [?A1, ?B1] ?c2 [?A3, ?B3] c_lost"
    by (rule schedule_second [OF loop_later, rotated])
       (simp add: processCPUPercent_def Let_def)
  then have "schedule [?A1, Update_goroutine w_later] ?c1 [?A3, ?B3] c_lost"
    by (rule schedule_second [OF goroutine_later, rotated])
       (simp add: updateSystemSample_def Let_def)
  then show ?thesis
    by (rule schedule_first [OF goroutine_base, rotated])
       (simp add: updateSystemSample_def Let_def c_100_def)
qed


lemma Update_100_base: "Update c_100 w_base = (sent_python 80, Returned None, c_110)"
  by (simp add: Update_def pids_base host_base total_base Let_def updatePid_def collect_base
      emit_base updateSystemSample_def processCPUPercent_def pruneCPUSamples_def c_100_def
      c_110_def sent_python_def fun_eq_iff w_base_sel andThen_def)

lemma Update_110_later: "Update c_110 w_later = (sent_python 80, Returned None, c_120)"
  by (simp add: Update_def pids_later host_later total_later Let_def updatePid_def collect_later
      emit_later updateSystemSample_def processCPUPercent_def pruneCPUSamples_def c_110_def
      c_120_def sent_python_def fun_eq_iff w_later_sel andThen_def)

lemma Update_100_later: "Update c_100 w_later = (sent_python 80, Returned None, c_120)"
  by (simp add: Update_def pids_later host_later total_later Let_def updatePid_def collect_later
      emit_later updateSystemSample_def processCPUPercent_def pruneCPUSamples_def c_100_def
      c_120_def sent_python_def fun_eq_iff w_later_sel andThen_def)

lemma Update_120_base: "Update c_120 w_base = (sent_python 0, Returned None, c_110)"
  by (simp add: Update_def pids_base host_base total_base Let_def updatePid_def collect_base
      emit_base updateSystemSample_def processCPUPercent_def pruneCPUSamples_def c_120_def
      c_110_def sent_python_def fun_eq_iff w_base_sel andThen_def)

lemma c_lost_differs: "c_lost \<noteq> c_120 \<and> c_lost \<noteq> c_110"
proof -
  have "cpuSamples c_lost 42 \<noteq> cpuSamples c_120 42" by (simp add: c_lost_def c_120_def)
  moreover have "systemSample c_lost \<noteq> systemSample c_110" by (simp add: c_lost_def c_110_def)
  ultimately show ?thesis by auto
qed


text \<open>
  C9. What two scrapes at once do to the state, where the claim and the code part. The
  collector holds 100 CPU-seconds for the system and 2 for pid 42. Scrape A reads 110 and
  3, scrape B reads 120 and 4, and both run \<open>Update\<close> on the collector with no lock.
  In this schedule A calls \<open>updateSystemSample\<close>, then B runs its whole cycle, then A calls
  \<open>processCPUPercent\<close> and \<open>pruneCPUSamples\<close>. Both calls of \<open>Update\<close> return \<open>nil\<close>. The
  collector is left with the system sample of B (120) and the sample of A for pid 42 (3):
  the sample that B stored for pid 42 is lost, and the two baselines of the next cycle
  come from different moments. Run one after the other, A then B leaves 120 and 4, B then
  A leaves 110 and 3; the state reached here is neither. The gauges differ as well: A
  sends 0 and B sends 160 for the CPU of pid 42, where A then B sends 80 and 80.
\<close>

theorem Update_concurrent_lost_update:
  "schedule [Update_goroutine w_base, Update_goroutine w_later] c_100
     [Ended (sent_python 0) (Returned None), Ended (sent_python 160) (Returned None)] c_lost
   \<and> Update c_100 w_base = (sent_python 80, Returned None, c_110)
   \<and> Update c_110 w_later = (sent_python 80, Returned None, c_120)
   \<and> Update c_100 w_later = (sent_python 80, Returned None, c_120)
   \<and> Update c_120 w_base = (sent_python 0, Returned None, c_110)
   \<and> c_lost \<noteq> c_120 \<and> c_lost \<noteq> c_110"
  using lost_run Update_100_base Update_110_later Update_100_later Update_120_base c_lost_differs
  by blast

end
